theory Spec2Isabelle
  imports Main "HOL-Library.Char_ord" "HOL-Library.List_Lexorder"
begin

section \<open>JavaScript values\<close>

text \<open>
  Request bodies, alerts and template contexts are JSON-like JavaScript values. Numbers are
  restricted to integers; an object is the list of its own properties in insertion order
  (keys pairwise distinct, as \<^verbatim>\<open>JSON.parse\<close> and object literals produce them).
  Strings are lists of 8-bit characters, so the development speaks about ASCII text.
\<close>

datatype jsval =
    JUndefined
  | JNull
  | JBool bool
  | JNum int
  | JStr string
  | JArr "jsval list"
  | JObj "(string \<times> jsval) list"

text \<open>Errors raised by the handlers, as values.\<close>

datatype error =
    TypeError
  | InvalidPayload
  | TemplateIdRequired
  | AlertNotFound
  | TemplateNotFound string
  | RenderError string
  | MissingFields

text \<open>\<^verbatim>\<open>!!v\<close>: the falsy values are undefined, null, false, 0 and the empty string.\<close>

fun truthy :: "jsval \<Rightarrow> bool" where
  "truthy JUndefined = False"
| "truthy JNull = False"
| "truthy (JBool b) = b"
| "truthy (JNum n) = (n \<noteq> 0)"
| "truthy (JStr s) = (s \<noteq> [])"
| "truthy (JArr _) = True"
| "truthy (JObj _) = True"

text \<open>\<^verbatim>\<open>a || b\<close>.\<close>

definition js_or :: "jsval \<Rightarrow> jsval \<Rightarrow> jsval" where
  "js_or a b = (if truthy a then a else b)"

fun nullish :: "jsval \<Rightarrow> bool" where
  "nullish JUndefined = True"
| "nullish JNull = True"
| "nullish _ = False"

text \<open>
  \<^verbatim>\<open>o.k\<close> for the property names the handlers read (none of them is a built-in property of
  strings, numbers or arrays): an own property of an object, undefined otherwise. Reading a
  property of undefined or null raises a TypeError; the callers below check \<open>nullish\<close> first
  where the source can reach such a read.
\<close>

fun get :: "jsval \<Rightarrow> string \<Rightarrow> jsval" where
  "get (JObj kvs) k = (case map_of kvs k of Some v \<Rightarrow> v | None \<Rightarrow> JUndefined)"
| "get _ k = JUndefined"

fun is_string :: "jsval \<Rightarrow> bool" where
  "is_string (JStr _) = True"
| "is_string _ = False"

text \<open>\<^verbatim>\<open>typeof v === 'object'\<close> holds of objects, arrays and null.\<close>

fun typeof_object :: "jsval \<Rightarrow> bool" where
  "typeof_object (JObj _) = True"
| "typeof_object (JArr _) = True"
| "typeof_object JNull = True"
| "typeof_object _ = False"

section \<open>String primitives\<close>

text \<open>\<^verbatim>\<open>s.startsWith(t)\<close> and \<^verbatim>\<open>s.includes(t)\<close>.\<close>

definition startsWith :: "string \<Rightarrow> string \<Rightarrow> bool" where
  "startsWith s t = (take (length t) s = t)"

fun str_includes :: "string \<Rightarrow> string \<Rightarrow> bool" where
  "str_includes [] t = (t = [])"
| "str_includes (c # s) t = (startsWith (c # s) t \<or> str_includes s t)"

text \<open>\<^verbatim>\<open>s.toLowerCase()\<close> on ASCII text.\<close>

definition lower_char :: "char \<Rightarrow> char" where
  "lower_char c =
     (case map_of (zip ''ABCDEFGHIJKLMNOPQRSTUVWXYZ'' ''abcdefghijklmnopqrstuvwxyz'') c of
        Some l \<Rightarrow> l
      | None \<Rightarrow> c)"

definition toLowerCase :: "string \<Rightarrow> string" where
  "toLowerCase s = map lower_char s"

section \<open>Priority derivation (DocumentGenerator.determinePriority)\<close>

text \<open>
  The first block of the method: the tests made on the lowercased signal when it is a
  string. \<open>None\<close> means that no branch returned.
\<close>

definition priority_of_signal :: "string \<Rightarrow> string option" where
  "priority_of_signal priority =
     (let p = toLowerCase priority in
      if str_includes p ''critical'' \<or> str_includes p ''high'' \<or> str_includes p ''error'' then Some ''high''
      else if str_includes p ''warning'' \<or> str_includes p ''medium'' \<or> str_includes p ''warn'' then Some ''medium''
      else if str_includes p ''info'' \<or> str_includes p ''low'' then Some ''low''
      else None)"

text \<open>
  The second block: \<^verbatim>\<open>(alertData.alert_type || '').toLowerCase()\<close> raises a TypeError when
  the alert type is truthy and not a string.
\<close>

definition priority_of_alert_type :: "jsval \<Rightarrow> error + string" where
  "priority_of_alert_type t =
     (case js_or t (JStr []) of
        JStr a \<Rightarrow>
          (let alertType = toLowerCase a in
           if str_includes alertType ''error'' \<or> str_includes alertType ''critical'' then Inr ''high''
           else if str_includes alertType ''warning'' \<or> str_includes alertType ''anomaly'' then Inr ''medium''
           else Inr ''medium'')
      | _ \<Rightarrow> Inl TypeError)"

definition determinePriority :: "jsval \<Rightarrow> error + string" where
  "determinePriority alertData =
     (if nullish alertData then Inl TypeError
      else
        let priority = js_or (get alertData ''priority'') (get alertData ''alert_type'') in
        case (case priority of JStr p \<Rightarrow> priority_of_signal p | _ \<Rightarrow> None) of
          Some r \<Rightarrow> Inr r
        | None \<Rightarrow> priority_of_alert_type (get alertData ''alert_type''))"


section \<open>More string primitives\<close>

text \<open>\<^verbatim>\<open>s.trim()\<close>: the ASCII white space and line terminators.\<close>

definition is_space :: "char \<Rightarrow> bool" where
  "is_space c = (c \<in> set [CHR 0x09, CHR 0x0A, CHR 0x0B, CHR 0x0C, CHR 0x0D, CHR 0x20])"

definition trim :: "string \<Rightarrow> string" where
  "trim s = rev (dropWhile is_space (rev (dropWhile is_space s)))"

text \<open>\<^verbatim>\<open>s.split('\n')[0]\<close>: the text before the first line feed.\<close>

definition first_line :: "string \<Rightarrow> string" where
  "first_line s = takeWhile (\<lambda>c. c \<noteq> CHR 0x0A) s"

text \<open>
  \<^verbatim>\<open>s.replace(pat, rep)\<close> with a string pattern replaces the first occurrence only
  (the replacements used here contain no \<^verbatim>\<open>$\<close> pattern).
\<close>

fun replace_first :: "string \<Rightarrow> string \<Rightarrow> string \<Rightarrow> string" where
  "replace_first [] pat rep = (if pat = [] then rep else [])"
| "replace_first (c # s) pat rep =
     (if startsWith (c # s) pat then rep @ drop (length pat) (c # s)
      else c # replace_first s pat rep)"

text \<open>Decimal rendering of an integer, as \<^verbatim>\<open>String(n)\<close> gives it.\<close>

definition digit_char :: "int \<Rightarrow> char" where
  "digit_char d = char_of (48 + d)"

function show_digits :: "int \<Rightarrow> string" where
  "show_digits n =
     (if n < 10 then [digit_char n] else show_digits (n div 10) @ [digit_char (n mod 10)])"
  by pat_completeness auto
termination
  by (relation "measure (\<lambda>n. nat n)") auto

definition show_int :: "int \<Rightarrow> string" where
  "show_int i = (if i < 0 then CHR ''-'' # show_digits (- i) else show_digits i)"

fun join :: "string \<Rightarrow> string list \<Rightarrow> string" where
  "join sep [] = []"
| "join sep [x] = x"
| "join sep (x # y # ys) = x @ sep @ join sep (y # ys)"

section \<open>JSON.stringify\<close>

text \<open>
  String quoting: the double quote (0x22) and the backslash (0x5C) are escaped, control
  characters become their short escape or \<^verbatim>\<open>\u00XX\<close>.
\<close>

definition hex_char :: "nat \<Rightarrow> char" where
  "hex_char d = (if d < 10 then char_of (48 + d) else char_of (87 + d))"

definition json_escape :: "char \<Rightarrow> string" where
  "json_escape c =
     (if c = CHR 0x22 then [CHR 0x5C, CHR 0x22]
      else if c = CHR 0x5C then [CHR 0x5C, CHR 0x5C]
      else if c = CHR 0x08 then [CHR 0x5C, CHR ''b'']
      else if c = CHR 0x0C then [CHR 0x5C, CHR ''f'']
      else if c = CHR 0x0A then [CHR 0x5C, CHR ''n'']
      else if c = CHR 0x0D then [CHR 0x5C, CHR ''r'']
      else if c = CHR 0x09 then [CHR 0x5C, CHR ''t'']
      else if (of_char c :: nat) < 32 then
        [CHR 0x5C, CHR ''u'', CHR ''0'', CHR ''0'',
         hex_char ((of_char c :: nat) div 16), hex_char ((of_char c :: nat) mod 16)]
      else [c])"

definition json_quote :: "string \<Rightarrow> string" where
  "json_quote s = CHR 0x22 # concat (map json_escape s) @ [CHR 0x22]"

text \<open>
  \<^verbatim>\<open>JSON.stringify(v, replacer)\<close> without indentation. \<open>None\<close> is the result undefined
  (the value is left out of an object and written null in an array). With a replacer array
  the property list of every object, at every depth, is that array without duplicates, in
  its order; without one it is the object's own keys.
\<close>

fun stringify :: "string list option \<Rightarrow> jsval \<Rightarrow> string option" where
  "stringify r JUndefined = None"
| "stringify r JNull = Some ''null''"
| "stringify r (JBool b) = Some (if b then ''true'' else ''false'')"
| "stringify r (JNum n) = Some (show_int n)"
| "stringify r (JStr s) = Some (json_quote s)"
| "stringify r (JArr vs) =
     Some (''['' @ join '','' (map (\<lambda>v. case stringify r v of None \<Rightarrow> ''null'' | Some s \<Rightarrow> s) vs) @ '']'')"
| "stringify r (JObj kvs) =
     (let props = map (\<lambda>(k, v). (k, stringify r v)) kvs;
          keys = (case r of None \<Rightarrow> map fst kvs | Some ks \<Rightarrow> rev (remdups (rev ks)))
      in Some (''{'' @ join '',''
           (List.map_filter
              (\<lambda>k. case map_of props k of
                     Some (Some s) \<Rightarrow> Some (json_quote k @ '':'' @ s)
                   | _ \<Rightarrow> None) keys) @ ''}''))"

text \<open>An object or array always has a JSON text.\<close>

definition stringify_text :: "string list option \<Rightarrow> jsval \<Rightarrow> string" where
  "stringify_text r v = (case stringify r v of Some s \<Rightarrow> s | None \<Rightarrow> [])"


text \<open>
  \<^verbatim>\<open>String(v)\<close>, the coercion made by a template literal: an array joins its elements with
  commas, writing nothing for undefined and null.
\<close>

fun js_to_string :: "jsval \<Rightarrow> string" where
  "js_to_string JUndefined = ''undefined''"
| "js_to_string JNull = ''null''"
| "js_to_string (JBool b) = (if b then ''true'' else ''false'')"
| "js_to_string (JNum n) = show_int n"
| "js_to_string (JStr s) = s"
| "js_to_string (JArr vs) = join '','' (map (\<lambda>v. if nullish v then [] else js_to_string v) vs)"
| "js_to_string (JObj kvs) = ''[object Object]''"

section \<open>Libraries and stored data\<close>

text \<open>
  The functions of the packages the code calls (crypto, Handlebars, moment) are parameters of
  the model. \<open>handlebars body ctx\<close> is \<^verbatim>\<open>Handlebars.compile(body)(ctx)\<close>: the rendered text,
  or the message of the error it throws. Instants are milliseconds since the epoch.
\<close>

record lib =
  md5_hex :: "string \<Rightarrow> string"
  handlebars :: "jsval \<Rightarrow> jsval \<Rightarrow> string + string"
  toISOString :: "int \<Rightarrow> string"
  format :: "string \<Rightarrow> int \<Rightarrow> string"
  unix :: "jsval \<Rightarrow> int"
  fromNow :: "int \<Rightarrow> int \<Rightarrow> string"

text \<open>
  The timestamps that the handlers store with \<^verbatim>\<open>moment().toISOString()\<close> are kept in the
  records below as the instant they denote.
\<close>

record alertData =
  alertId :: string
  timestamp :: int
  alertHash :: string
  originalPayload :: jsval
  status :: string
  processedAt :: "int option"
  documentId :: "string option"
  templateId :: "string option"

record template =
  template_id :: string
  name :: string
  description :: string
  category :: string
  content :: string
  createdAt :: int
  updatedAt :: int
  usageCount :: "int option"
  lastUsed :: "int option"

record document =
  doc_id :: string
  doc_title :: string
  doc_content :: string
  doc_alertType :: jsval
  doc_priority :: string
  doc_status :: string
  doc_templateId :: string
  doc_templateName :: string
  originalAlert :: jsval
  doc_createdAt :: int
  doc_updatedAt :: int

text \<open>
  The state of the server: the in-memory \<^verbatim>\<open>pendingAlerts\<close> Map (its entries in insertion
  order) and the three data directories, one JSON file per id.
\<close>

record server_state =
  pendingAlerts :: "(string \<times> alertData) list"
  alertFiles :: "string \<rightharpoonup> alertData"
  templateFiles :: "string \<rightharpoonup> template"
  documentFiles :: "string \<rightharpoonup> document"

text \<open>\<^verbatim>\<open>Map.prototype.set\<close>, \<^verbatim>\<open>get\<close>, \<^verbatim>\<open>delete\<close> and \<^verbatim>\<open>values\<close>.\<close>

definition map_set :: "(string \<times> 'a) list \<Rightarrow> string \<Rightarrow> 'a \<Rightarrow> (string \<times> 'a) list" where
  "map_set m k v =
     (if k \<in> set (map fst m) then map (\<lambda>(k', v'). if k' = k then (k', v) else (k', v')) m
      else m @ [(k, v)])"

definition map_get :: "(string \<times> 'a) list \<Rightarrow> string \<Rightarrow> 'a option" where
  "map_get m k = map_of m k"

definition map_delete :: "(string \<times> 'a) list \<Rightarrow> string \<Rightarrow> (string \<times> 'a) list" where
  "map_delete m k = filter (\<lambda>(k', v'). k' \<noteq> k) m"

definition map_values :: "(string \<times> 'a) list \<Rightarrow> 'a list" where
  "map_values m = map snd m"

section \<open>Alert ingest and deduplication (webhook router)\<close>

text \<open>
  \<^verbatim>\<open>generateAlertHash\<close>: the hashed object, the JSON text restricted to its sorted keys, and
  the digest. \<open>now\<close> is the value of \<^verbatim>\<open>Date.now()\<close>.
\<close>

definition hashData :: "int \<Rightarrow> jsval \<Rightarrow> (string \<times> jsval) list" where
  "hashData now alert =
     [(''alert_type'', get alert ''alert_type''),
      (''title'', js_or (js_or (get alert ''title'') (get alert ''event_title'')) (JStr ''untitled'')),
      (''timeWindow'', JNum (now div (1000 * 60 * 5)))]
     @ (if truthy (get alert ''org'') then [(''org'', get alert ''org'')] else [])
     @ (if truthy (get alert ''id'') then [(''id'', get alert ''id'')] else [])"

definition hashString :: "int \<Rightarrow> jsval \<Rightarrow> string" where
  "hashString now alert =
     (let obj = hashData now alert in stringify_text (Some (sort (map fst obj))) (JObj obj))"

definition generateAlertHash :: "lib \<Rightarrow> int \<Rightarrow> jsval \<Rightarrow> string" where
  "generateAlertHash L now alert = md5_hex L (hashString now alert)"

text \<open>
  The alert built from a text body and from a JSON body. \<open>ts\<close> is the constant
  \<^verbatim>\<open>timestamp\<close> of the handler, \<^verbatim>\<open>moment().toISOString()\<close>.
\<close>

definition text_alert :: "string \<Rightarrow> string \<Rightarrow> jsval" where
  "text_alert ts textPayload =
     (let isAlert = (str_includes textPayload ''[Triggered]'' \<or> str_includes textPayload ''Anomaly Detected'');
          isRecovery = (str_includes textPayload ''Normalized'' \<or> str_includes textPayload ''Recovery'');
          titleLine = (if first_line textPayload = [] then ''Datadog Alert'' else first_line textPayload)
      in JObj
        [(''alert_type'', JStr (if isAlert then ''error'' else if isRecovery then ''recovery'' else ''info'')),
         (''title'', JStr (trim (replace_first (replace_first titleLine ''[Triggered]'' []) ''[Recovery]'' []))),
         (''message'', JStr textPayload),
         (''priority'', JStr (if str_includes (toLowerCase textPayload) ''anomaly'' then ''high'' else ''medium'')),
         (''timestamp'', JStr ts),
         (''source'', JStr ''datadog_text'')])"

definition json_alert :: "string \<Rightarrow> jsval \<Rightarrow> jsval" where
  "json_alert ts payload =
     JObj
       [(''alert_type'', js_or (js_or (get payload ''event_type'') (get payload ''alert_type'')) (JStr ''info'')),
        (''title'', js_or (js_or (get payload ''title'') (get payload ''event_title'')) (JStr ''Datadog Alert'')),
        (''message'', js_or (js_or (get payload ''body'') (get payload ''message''))
                        (JStr (stringify_text None payload))),
        (''id'', get payload ''id''),
        (''date'', get payload ''date''),
        (''last_updated'', get payload ''last_updated''),
        (''org'', get payload ''org''),
        (''priority'', JStr ''medium''),
        (''timestamp'', JStr ts),
        (''source'', JStr ''datadog_json''),
        (''originalPayload'', payload)]"

text \<open>
  The normalisation step of the handler: a string body, an object body (arrays included,
  null excluded), anything else is answered 400. The last step of the source, which sets the
  title when title and message are both falsy, is \<open>ensure_title\<close>.
\<close>

definition obj_set :: "jsval \<Rightarrow> string \<Rightarrow> jsval \<Rightarrow> jsval" where
  "obj_set ob k v =
     (case ob of
        JObj kvs \<Rightarrow>
          JObj (if k \<in> set (map fst kvs)
                then map (\<lambda>(k', v'). if k' = k then (k', v) else (k', v')) kvs
                else kvs @ [(k, v)])
      | _ \<Rightarrow> ob)"

definition ensure_title :: "jsval \<Rightarrow> jsval" where
  "ensure_title alert =
     (if \<not> truthy (get alert ''title'') \<and> \<not> truthy (get alert ''message'')
      then obj_set alert ''title'' (JStr ''Datadog Alert'') else alert)"

definition normalize_body :: "string \<Rightarrow> jsval \<Rightarrow> error + jsval" where
  "normalize_body ts body =
     (case body of
        JStr textPayload \<Rightarrow> Inr (ensure_title (text_alert ts textPayload))
      | _ \<Rightarrow>
          if truthy body \<and> typeof_object body then Inr (ensure_title (json_alert ts body))
          else Inl InvalidPayload)"

text \<open>
  The responses of \<^verbatim>\<open>POST /datadog\<close>: 200 with the new id, 200 with the existing id and
  \<^verbatim>\<open>duplicate: true\<close>, or 400.
\<close>

datatype ingest_response =
    Queued string
  | Duplicate string
  | Rejected error

text \<open>
  \<^verbatim>\<open>router.post('/datadog')\<close>. \<open>now\<close> is the clock and \<open>uuid\<close> the value that
  \<^verbatim>\<open>uuidv4()\<close> returns when it is called.
\<close>

definition datadog :: "lib \<Rightarrow> int \<Rightarrow> string \<Rightarrow> jsval \<Rightarrow> server_state \<Rightarrow> ingest_response \<times> server_state" where
  "datadog L now uuid body st =
     (case normalize_body (toISOString L now) body of
        Inl e \<Rightarrow> (Rejected e, st)
      | Inr alert \<Rightarrow>
          let h = generateAlertHash L now alert in
          case find (\<lambda>a. alertHash a = h) (map_values (pendingAlerts st)) of
            Some existingAlert \<Rightarrow> (Duplicate (alertId existingAlert), st)
          | None \<Rightarrow>
              let alertData = \<lparr> alertId = uuid, timestamp = now, alertHash = h,
                                originalPayload = alert, status = ''pending_template_selection'',
                                processedAt = None, documentId = None, templateId = None \<rparr>
              in (Queued uuid,
                  st\<lparr> alertFiles := (alertFiles st)(uuid \<mapsto> alertData),
                      pendingAlerts := map_set (pendingAlerts st) uuid alertData \<rparr>))"

text \<open>
  The earlier version of the route (\<^verbatim>\<open>src/server/routes/webhook.js\<close>). It takes the request
  body as the alert, answers 400 when the body or its \<^verbatim>\<open>alert_type\<close> is falsy, and stores
  the body as it is: no text payloads, no default alert type, no fingerprint. Its stored
  entries and its \<^verbatim>\<open>pendingAlerts\<close> Map have the fields below.
\<close>

record alertData_v1 =
  alertId_v1 :: string
  timestamp_v1 :: int
  originalPayload_v1 :: jsval
  status_v1 :: string
  processedAt_v1 :: "int option"
  documentId_v1 :: "string option"

record server_state_v1 =
  pendingAlerts_v1 :: "(string \<times> alertData_v1) list"
  alertFiles_v1 :: "string \<rightharpoonup> alertData_v1"

definition datadog_v1 :: "int \<Rightarrow> string \<Rightarrow> jsval \<Rightarrow> server_state_v1 \<Rightarrow> ingest_response \<times> server_state_v1" where
  "datadog_v1 now uuid alert st =
     (if \<not> truthy alert \<or> \<not> truthy (get alert ''alert_type'') then (Rejected InvalidPayload, st)
      else
        let alertData = \<lparr> alertId_v1 = uuid, timestamp_v1 = now, originalPayload_v1 = alert,
                          status_v1 = ''pending_template_selection'',
                          processedAt_v1 = None, documentId_v1 = None \<rparr>
        in (Queued uuid,
            st\<lparr> alertFiles_v1 := (alertFiles_v1 st)(uuid \<mapsto> alertData),
                pendingAlerts_v1 := map_set (pendingAlerts_v1 st) uuid alertData \<rparr>))"


section \<open>Document generator\<close>

text \<open>
  \<^verbatim>\<open>extractTag\<close>: the first string tag that starts with \<^verbatim>\<open>key:\<close>, and of it the segment
  \<^verbatim>\<open>split(':')[1]\<close> between its first and its second colon.
\<close>

definition split_second :: "string \<Rightarrow> string" where
  "split_second s = takeWhile (\<lambda>c. c \<noteq> CHR '':'') (drop 1 (dropWhile (\<lambda>c. c \<noteq> CHR '':'') s))"

definition extractTag :: "jsval \<Rightarrow> string \<Rightarrow> string" where
  "extractTag tags key =
     (case tags of
        JArr ts \<Rightarrow>
          (case find (\<lambda>t. case t of JStr s \<Rightarrow> startsWith s (key @ '':'') | _ \<Rightarrow> False) ts of
             Some (JStr s) \<Rightarrow> split_second s
           | _ \<Rightarrow> [])
      | _ \<Rightarrow> [])"

text \<open>
  \<^verbatim>\<open>prepareTemplateContext\<close>. \<open>now\<close> is the instant of \<^verbatim>\<open>moment()\<close>; the moment object
  stored under \<^verbatim>\<open>time.triggered\<close> is written as its ISO string.
\<close>

definition prepareTemplateContext :: "lib \<Rightarrow> int \<Rightarrow> jsval \<Rightarrow> error + jsval" where
  "prepareTemplateContext L now alertData =
     (case determinePriority alertData of
        Inl e \<Rightarrow> Inl e
      | Inr prio \<Rightarrow>
          let g = get alertData;
              date = g ''date'';
              triggered = (if truthy date then unix L date else now);
              long = ''MMMM Do YYYY, h:mm:ss a''
          in Inr (JObj
            [(''alert'', JObj
               [(''id'', js_or (g ''id'') (JStr ''unknown'')),
                (''type'', js_or (g ''alert_type'') (JStr ''unknown'')),
                (''title'', js_or (g ''title'') (JStr ''Untitled Alert'')),
                (''message'', js_or (js_or (g ''body'') (g ''message'')) (JStr [])),
                (''priority'', JStr prio),
                (''status'', js_or (js_or (g ''alert_transition'') (g ''status'')) (JStr ''unknown'')),
                (''url'', js_or (g ''link'') (JStr [])),
                (''tags'', js_or (g ''tags'') (JArr []))]),
             (''time'', JObj
               [(''triggered'', JStr (toISOString L triggered)),
                (''formatted'', JStr (format L long triggered)),
                (''iso'', JStr (toISOString L triggered)),
                (''unix'', js_or date (JNum (now div 1000))),
                (''relative'', JStr (if truthy date then fromNow L now triggered else ''now''))]),
             (''metric'', JObj
               [(''name'', js_or (js_or (g ''metric_name'') (g ''metric'')) (JStr [])),
                (''value'', js_or (js_or (g ''metric_value'') (g ''value'')) (JStr [])),
                (''unit'', js_or (g ''unit'') (JStr [])),
                (''threshold'', js_or (g ''threshold'') (JStr [])),
                (''condition'', js_or (g ''condition'') (JStr []))]),
             (''host'', JObj
               [(''name'', js_or (js_or (g ''hostname'') (g ''host'')) (JStr [])),
                (''ip'', js_or (g ''host_ip'') (JStr [])),
                (''environment'',
                   JStr (if extractTag (g ''tags'') ''env'' \<noteq> [] then extractTag (g ''tags'') ''env''
                         else extractTag (g ''tags'') ''environment'')),
                (''service'', JStr (extractTag (g ''tags'') ''service'')),
                (''team'', JStr (extractTag (g ''tags'') ''team'')),
                (''region'', JStr (extractTag (g ''tags'') ''region''))]),
             (''org'', JObj
               [(''name'', js_or (g ''org_name'') (JStr [])),
                (''id'', js_or (g ''org_id'') (JStr []))]),
             (''raw'', alertData),
             (''generated'', JObj
               [(''at'', JStr (toISOString L now)),
                (''formatted'', JStr (format L long now)),
                (''by'', JStr ''Datadog Alert Documentation Generator'')])]))"

definition generateDocumentTitle :: "lib \<Rightarrow> int \<Rightarrow> jsval \<Rightarrow> string" where
  "generateDocumentTitle L now alertData =
     js_to_string (js_or (js_or (get alertData ''title'') (get alertData ''message''))
                         (JStr ''Alert Documentation''))
     @ '' - '' @ format L ''YYYY-MM-DD HH:mm'' now"

text \<open>\<^verbatim>\<open>updateTemplateUsage\<close>: nothing happens when the template file does not exist.\<close>

definition updateTemplateUsage :: "int \<Rightarrow> string \<Rightarrow> server_state \<Rightarrow> server_state" where
  "updateTemplateUsage now tid st =
     (case templateFiles st tid of
        None \<Rightarrow> st
      | Some t \<Rightarrow>
          st\<lparr> templateFiles := (templateFiles st)
                (tid \<mapsto> t\<lparr> usageCount := Some ((case usageCount t of None \<Rightarrow> 0 | Some n \<Rightarrow> n) + 1),
                           lastUsed := Some now \<rparr>) \<rparr>)"

text \<open>
  \<^verbatim>\<open>generateDocument\<close>: an error is rethrown to the caller and leaves the state as it
  was; \<open>uuid\<close> is the id that \<^verbatim>\<open>uuidv4()\<close> gives the document.
\<close>

definition generateDocument ::
  "lib \<Rightarrow> int \<Rightarrow> string \<Rightarrow> jsval \<Rightarrow> string \<Rightarrow> server_state \<Rightarrow> (error + document) \<times> server_state" where
  "generateDocument L now uuid alertData tid st =
     (case templateFiles st tid of
        None \<Rightarrow> (Inl (TemplateNotFound tid), st)
      | Some t \<Rightarrow>
          (case prepareTemplateContext L now alertData of
             Inl e \<Rightarrow> (Inl e, st)
           | Inr ctx \<Rightarrow>
               (case handlebars L (JStr (content t)) ctx of
                  Inl msg \<Rightarrow> (Inl (RenderError msg), st)
                | Inr renderedContent \<Rightarrow>
                    (case determinePriority alertData of
                       Inl e \<Rightarrow> (Inl e, st)
                     | Inr prio \<Rightarrow>
                         let doc = \<lparr> doc_id = uuid,
                                     doc_title = generateDocumentTitle L now alertData,
                                     doc_content = renderedContent,
                                     doc_alertType = js_or (get alertData ''alert_type'') (JStr ''unknown''),
                                     doc_priority = prio,
                                     doc_status = ''generated'',
                                     doc_templateId = tid,
                                     doc_templateName = name t,
                                     originalAlert = alertData,
                                     doc_createdAt = now,
                                     doc_updatedAt = now \<rparr>;
                             saved = st\<lparr> documentFiles := (documentFiles st)(uuid \<mapsto> doc) \<rparr>
                         in (Inr doc, updateTemplateUsage now tid saved)))))"

text \<open>
  \<^verbatim>\<open>previewTemplate\<close>: the result object, \<^verbatim>\<open>{success: true, content, context}\<close> or
  \<^verbatim>\<open>{success: false, error, content: null}\<close>, where the error is written as the exception
  whose message the source returns: \<open>RenderError msg\<close> for the error that Handlebars throws
  with message \<open>msg\<close>. The whole body is inside a try block, so the TypeError of the context
  builder is reported in the same way.
\<close>

datatype preview_result =
    PreviewOk string jsval
  | PreviewFailed error

definition previewTemplate ::
  "lib \<Rightarrow> int \<Rightarrow> jsval \<Rightarrow> jsval \<Rightarrow> server_state \<Rightarrow> preview_result \<times> server_state" where
  "previewTemplate L now templateContent alertData st =
     (case prepareTemplateContext L now alertData of
        Inl e \<Rightarrow> (PreviewFailed e, st)
      | Inr ctx \<Rightarrow>
          (case handlebars L templateContent ctx of
             Inl msg \<Rightarrow> (PreviewFailed (RenderError msg), st)
           | Inr renderedContent \<Rightarrow> (PreviewOk renderedContent ctx, st)))"

text \<open>
  \<^verbatim>\<open>router.post('/process/:alertId')\<close>. A missing \<^verbatim>\<open>templateId\<close> is the empty string, which
  the source rejects in the same test.
\<close>

definition process_alert ::
  "lib \<Rightarrow> int \<Rightarrow> string \<Rightarrow> string \<Rightarrow> string \<Rightarrow> server_state \<Rightarrow> (error + document) \<times> server_state" where
  "process_alert L now uuid aid tid st =
     (if tid = [] then (Inl TemplateIdRequired, st)
      else
        case map_get (pendingAlerts st) aid of
          None \<Rightarrow> (Inl AlertNotFound, st)
        | Some alertData \<Rightarrow>
            (case generateDocument L now uuid (originalPayload alertData) tid st of
               (Inl e, st') \<Rightarrow> (Inl e, st')
             | (Inr doc, st') \<Rightarrow>
                 let alertData' = alertData\<lparr> status := ''processed'', processedAt := Some now,
                                            documentId := Some (doc_id doc), templateId := Some tid \<rparr>
                 in (Inr doc,
                     st'\<lparr> alertFiles := (alertFiles st')(aid \<mapsto> alertData'),
                          pendingAlerts := map_delete (pendingAlerts st') aid \<rparr>)))"


section \<open>Template routes\<close>

text \<open>
  \<^verbatim>\<open>v.trim()\<close> and \<^verbatim>\<open>v?.trim()\<close> on a request field: only a string has the method, and
  the optional call gives undefined (\<open>None\<close>) on undefined and null.
\<close>

definition call_trim :: "jsval \<Rightarrow> error + string" where
  "call_trim v = (case v of JStr s \<Rightarrow> Inr (trim s) | _ \<Rightarrow> Inl TypeError)"

definition opt_trim :: "jsval \<Rightarrow> error + string option" where
  "opt_trim v =
     (case v of
        JStr s \<Rightarrow> Inr (Some (trim s))
      | JUndefined \<Rightarrow> Inr None
      | JNull \<Rightarrow> Inr None
      | _ \<Rightarrow> Inl TypeError)"

text \<open>\<^verbatim>\<open>v?.trim() || old\<close>.\<close>

definition trim_or :: "jsval \<Rightarrow> string \<Rightarrow> error + string" where
  "trim_or v old =
     (case opt_trim v of
        Inl e \<Rightarrow> Inl e
      | Inr None \<Rightarrow> Inr old
      | Inr (Some s) \<Rightarrow> Inr (if s \<noteq> [] then s else old))"

text \<open>
  \<^verbatim>\<open>router.post('/')\<close> of the template routes. The fields are those of the request body;
  \<^verbatim>\<open>category\<close> has the default \<^verbatim>\<open>'general'\<close> when it is undefined.
\<close>

definition create_template ::
  "int \<Rightarrow> string \<Rightarrow> jsval \<Rightarrow> jsval \<Rightarrow> jsval \<Rightarrow> jsval \<Rightarrow> server_state \<Rightarrow> (error + template) \<times> server_state" where
  "create_template now uuid name_f description_f category_f content_f st =
     (if \<not> truthy name_f \<or> \<not> truthy content_f then (Inl MissingFields, st)
      else
        case (call_trim name_f, trim_or description_f [],
              call_trim (if category_f = JUndefined then JStr ''general'' else category_f),
              call_trim content_f) of
          (Inr n, Inr d, Inr c, Inr co) \<Rightarrow>
            let t = \<lparr> template_id = uuid, name = n, description = d, category = c, content = co,
                      createdAt = now, updatedAt = now, usageCount = Some 0, lastUsed = None \<rparr>
            in (Inr t, st\<lparr> templateFiles := (templateFiles st)(uuid \<mapsto> t) \<rparr>)
        | _ \<Rightarrow> (Inl TypeError, st))"

text \<open>\<^verbatim>\<open>router.put('/:templateId')\<close>.\<close>

definition update_template ::
  "int \<Rightarrow> string \<Rightarrow> jsval \<Rightarrow> jsval \<Rightarrow> jsval \<Rightarrow> jsval \<Rightarrow> server_state \<Rightarrow> (error + template) \<times> server_state" where
  "update_template now tid name_f description_f category_f content_f st =
     (case templateFiles st tid of
        None \<Rightarrow> (Inl (TemplateNotFound tid), st)
      | Some existingTemplate \<Rightarrow>
          (case (trim_or name_f (name existingTemplate),
                 trim_or description_f (description existingTemplate),
                 trim_or category_f (category existingTemplate),
                 trim_or content_f (content existingTemplate)) of
             (Inr n, Inr d, Inr c, Inr co) \<Rightarrow>
               let updatedTemplate =
                     existingTemplate\<lparr> name := n, description := d, category := c, content := co,
                                        updatedAt := now \<rparr>
               in (Inr updatedTemplate,
                   st\<lparr> templateFiles := (templateFiles st)(tid \<mapsto> updatedTemplate) \<rparr>)
           | _ \<Rightarrow> (Inl TypeError, st)))"

section \<open>Document search\<close>

text \<open>
  \<^verbatim>\<open>router.get('/search/:query')\<close> of the server. \<open>docs\<close> are the documents read from the
  files of the documents directory, in the order of the directory listing. The loop pushes a
  summary with a snippet for every match; the result is sorted newest first (the sort of
  the runtime is stable).
\<close>

record search_hit =
  hit_id :: string
  hit_title :: string
  hit_alertType :: jsval
  hit_templateName :: string
  hit_createdAt :: int
  hit_priority :: string
  hit_status :: string
  snippet :: string

definition searchableText :: "document \<Rightarrow> string" where
  "searchableText d =
     toLowerCase (doc_title d @ '' '' @ doc_content d @ '' '' @ js_to_string (doc_alertType d))"

definition hit_of :: "document \<Rightarrow> search_hit" where
  "hit_of d =
     \<lparr> hit_id = doc_id d, hit_title = doc_title d, hit_alertType = doc_alertType d,
       hit_templateName = doc_templateName d, hit_createdAt = doc_createdAt d,
       hit_priority = doc_priority d, hit_status = doc_status d,
       snippet = take 200 (doc_content d) @ ''...'' \<rparr>"

fun search_loop :: "string \<Rightarrow> document list \<Rightarrow> search_hit list \<Rightarrow> search_hit list" where
  "search_loop searchTerm [] matchingDocuments = matchingDocuments"
| "search_loop searchTerm (d # ds) matchingDocuments =
     search_loop searchTerm ds
       (if str_includes (searchableText d) searchTerm then matchingDocuments @ [hit_of d]
        else matchingDocuments)"

definition search_documents :: "document list \<Rightarrow> string \<Rightarrow> search_hit list" where
  "search_documents docs query =
     sort_key (\<lambda>h. - hit_createdAt h) (search_loop (toLowerCase query) docs [])"

text \<open>
  The search of the serverless documents function (\<^verbatim>\<open>?search=\<close>, taken when the parameter
  is not empty): a filter over the stored array, whole documents returned.
\<close>

record nl_document =
  nl_id :: string
  nl_title :: string
  nl_content :: string
  nl_template_id :: string
  alert_data :: jsval
  nl_created_at :: int
  nl_updated_at :: int

definition nl_matches :: "string \<Rightarrow> nl_document \<Rightarrow> bool" where
  "nl_matches searchTerm doc =
     (str_includes (toLowerCase (nl_title doc)) searchTerm \<or>
      str_includes (toLowerCase (nl_content doc)) searchTerm \<or>
      (truthy (alert_data doc) \<and>
       str_includes (toLowerCase (stringify_text None (alert_data doc))) searchTerm))"

definition nl_search :: "nl_document list \<Rightarrow> string \<Rightarrow> nl_document list" where
  "nl_search documents search = filter (nl_matches (toLowerCase search)) documents"


section \<open>Sequences of webhook operations\<close>

text \<open>
  The two operations of the webhook router that change the pending set, with their inputs
  (the clock, the generated id, and the request), and the run of a sequence of them.
\<close>

datatype webhook_op =
    Ingest int string jsval
  | Process int string string string

fun step :: "lib \<Rightarrow> webhook_op \<Rightarrow> server_state \<Rightarrow> server_state" where
  "step L (Ingest now uuid body) st = snd (datadog L now uuid body st)"
| "step L (Process now uuid aid tid) st = snd (process_alert L now uuid aid tid st)"

fun run :: "lib \<Rightarrow> webhook_op list \<Rightarrow> server_state \<Rightarrow> server_state" where
  "run L [] st = st"
| "run L (x # xs) st = run L xs (step L x st)"


section \<open>Notions used to state the properties\<close>

text \<open>The text of a field that holds a string; the empty text for any other value.\<close>

definition field_text :: "jsval \<Rightarrow> string" where
  "field_text v = (case v of JStr s \<Rightarrow> s | _ \<Rightarrow> [])"

text \<open>
  The usage count of a template, a missing count read as 0, and the value that a field has
  after an update: the old value when the request gives no string or gives only white
  space, the trimmed string otherwise.
\<close>

definition count_of :: "template \<Rightarrow> int" where
  "count_of t = (case usageCount t of None \<Rightarrow> 0 | Some n \<Rightarrow> n)"

definition kept :: "jsval \<Rightarrow> string \<Rightarrow> string" where
  "kept v old = (if list_all is_space (field_text v) then old else trim (field_text v))"

text \<open>The fingerprints of the pending alerts, and the shape of the pending Map.\<close>

definition pending_hashes :: "server_state \<Rightarrow> string list" where
  "pending_hashes st = map alertHash (map_values (pendingAlerts st))"

definition pending_wf :: "server_state \<Rightarrow> bool" where
  "pending_wf st =
     (distinct (map fst (pendingAlerts st)) \<and>
      list_all (\<lambda>(k, a). alertId a = k) (pendingAlerts st))"

text \<open>The invariant of the pending Map that the webhook operations keep.\<close>

definition pending_inv :: "server_state \<Rightarrow> bool" where
  "pending_inv st = (pending_wf st \<and> distinct (pending_hashes st))"

text \<open>A body that the handler treats as a JSON payload: an object or an array.\<close>

definition structured :: "jsval \<Rightarrow> bool" where
  "structured body = (truthy body \<and> typeof_object body)"

text \<open>
  An instance of the libraries, to run the model on concrete inputs: the digest is the
  identity (so it never collides), a template renders to its own text unless it opens a
  block that it does not close, and instants are written in decimal.
\<close>

definition sample_lib :: lib where
  "sample_lib =
     \<lparr> md5_hex = (\<lambda>s. s),
       handlebars = (\<lambda>body ctx.
         case body of
           JStr b \<Rightarrow> if str_includes b ''{{#if'' \<and> \<not> str_includes b ''{{/if}}''
                     then Inl ''Parse error'' else Inr b
         | _ \<Rightarrow> Inl ''You must pass a string or Handlebars AST to Handlebars.compile''),
       toISOString = show_int,
       format = (\<lambda>f t. show_int t),
       unix = (\<lambda>v. case v of JNum n \<Rightarrow> n * 1000 | _ \<Rightarrow> 0),
       fromNow = (\<lambda>now t. show_int (now - t)) \<rparr>"

definition empty_state :: server_state where
  "empty_state =
     \<lparr> pendingAlerts = [], alertFiles = Map.empty, templateFiles = Map.empty,
       documentFiles = Map.empty \<rparr>"

text \<open>The empty state of the earlier version of the webhook router.\<close>

definition empty_state_v1 :: server_state_v1 where
  "empty_state_v1 = \<lparr> pendingAlerts_v1 = [], alertFiles_v1 = Map.empty \<rparr>"

text \<open>A stored template and a server state that holds it, for the same purpose.\<close>

definition sample_template :: template where
  "sample_template =
     \<lparr> template_id = ''t-1'', name = ''Incident report'', description = ''Default report'',
       category = ''general'', content = ''Alert: {{alert.title}}'',
       createdAt = 1714557000000, updatedAt = 1714557000000,
       usageCount = Some 0, lastUsed = None \<rparr>"

definition sample_state :: server_state where
  "sample_state =
     \<lparr> pendingAlerts = [], alertFiles = Map.empty,
       templateFiles = [''t-1'' \<mapsto> sample_template], documentFiles = Map.empty \<rparr>"

text \<open>A stored document, to run the search on.\<close>

definition sample_document :: document where
  "sample_document =
     \<lparr> doc_id = ''d-1'', doc_title = ''Disk alert - 2024-05-01 10:00'', doc_content = ''usage 91%'',
       doc_alertType = JStr ''warning'', doc_priority = ''medium'', doc_status = ''generated'',
       doc_templateId = ''t-1'', doc_templateName = ''Incident report'',
       originalAlert = JObj [(''alert_type'', JStr ''warning''), (''title'', JStr ''Disk alert''),
                             (''source'', JStr ''datadog_json'')],
       doc_createdAt = 1714557720000, doc_updatedAt = 1714557720000 \<rparr>"

section \<open>Properties: priority derivation\<close>

lemma toLowerCase_Nil [simp]: "toLowerCase [] = []"
  by (simp add: toLowerCase_def)

text \<open>
  C2, as amended. The priority is derived from one signal, the \<^verbatim>\<open>priority\<close> field when it
  is truthy and the alert type otherwise (so the alert type goes through the same three
  tests when there is no priority field). When the lowercased signal is a string it gives
  high if it contains critical, high or error, else medium if it contains warning, medium
  or warn, else low if it contains info or low. When no test applies the result is high if
  the lowercased alert type contains error or critical, and medium otherwise. The alert
  type is a string or is absent.
\<close>

theorem determinePriority_rule:
  assumes "\<not> nullish alertData"
    and "is_string (get alertData ''alert_type'') \<or> \<not> truthy (get alertData ''alert_type'')"
  shows "determinePriority alertData = Inr
     (let signal = toLowerCase (field_text (js_or (get alertData ''priority'') (get alertData ''alert_type'')));
          alertType = toLowerCase (field_text (get alertData ''alert_type''))
      in if str_includes signal ''critical'' \<or> str_includes signal ''high'' \<or> str_includes signal ''error''
           then ''high''
         else if str_includes signal ''warning'' \<or> str_includes signal ''medium'' \<or> str_includes signal ''warn''
           then ''medium''
         else if str_includes signal ''info'' \<or> str_includes signal ''low'' then ''low''
         else if str_includes alertType ''error'' \<or> str_includes alertType ''critical'' then ''high''
         else ''medium'')"
proof -
  let ?a = "get alertData ''alert_type''"
  let ?s = "js_or (get alertData ''priority'') ?a"
  have second: "priority_of_alert_type ?a = Inr
      (if str_includes (toLowerCase (field_text ?a)) ''error''
          \<or> str_includes (toLowerCase (field_text ?a)) ''critical''
       then ''high'' else ''medium'')"
    using assms(2)
    by (cases ?a) (auto simp: priority_of_alert_type_def js_or_def field_text_def Let_def)
  show ?thesis
  proof (cases ?s)
    case (JStr p)
    then show ?thesis using assms(1) second
      by (simp add: determinePriority_def priority_of_signal_def field_text_def Let_def)
  qed (use assms(1) second in \<open>simp_all add: determinePriority_def field_text_def Let_def\<close>)
qed

text \<open>
  The rule at the alerts of the specification: alert type error and alert type warning
  without a priority field, an alert without any signal, and an explicit priority that
  wins over the alert type.
\<close>

theorem determinePriority_rule_witness:
  "determinePriority (JObj [(''alert_type'', JStr ''error'')]) = Inr ''high'' \<and>
   determinePriority (JObj [(''alert_type'', JStr ''warning'')]) = Inr ''medium'' \<and>
   determinePriority (JObj []) = Inr ''medium'' \<and>
   determinePriority (JObj [(''priority'', JStr ''P1 Critical''), (''alert_type'', JStr ''info'')])
     = Inr ''high''"
proof (intro conjI)
  show "determinePriority (JObj [(''alert_type'', JStr ''error'')]) = Inr ''high''"
    using determinePriority_rule [of "JObj [(''alert_type'', JStr ''error'')]"]
    by (simp add: js_or_def field_text_def toLowerCase_def lower_char_def startsWith_def)
  show "determinePriority (JObj [(''alert_type'', JStr ''warning'')]) = Inr ''medium''"
    using determinePriority_rule [of "JObj [(''alert_type'', JStr ''warning'')]"]
    by (simp add: js_or_def field_text_def toLowerCase_def lower_char_def startsWith_def)
  show "determinePriority (JObj []) = Inr ''medium''"
    using determinePriority_rule [of "JObj []"]
    by (simp add: js_or_def field_text_def)
  show "determinePriority (JObj [(''priority'', JStr ''P1 Critical''), (''alert_type'', JStr ''info'')])
          = Inr ''high''"
    using determinePriority_rule
      [of "JObj [(''priority'', JStr ''P1 Critical''), (''alert_type'', JStr ''info'')]"]
    by (simp add: js_or_def field_text_def toLowerCase_def lower_char_def startsWith_def)
qed

text \<open>
  C2 as stated fails: an alert without a priority field whose alert type is info contains
  none of error, critical, warning and anomaly, so the stated rule gives medium; the code
  gives low.
\<close>

theorem determinePriority_info_counterexample:
  "get (JObj [(''alert_type'', JStr ''info'')]) ''priority'' = JUndefined \<and>
   \<not> str_includes (toLowerCase ''info'') ''error'' \<and>
   \<not> str_includes (toLowerCase ''info'') ''critical'' \<and>
   \<not> str_includes (toLowerCase ''info'') ''warning'' \<and>
   \<not> str_includes (toLowerCase ''info'') ''anomaly'' \<and>
   determinePriority (JObj [(''alert_type'', JStr ''info'')]) = Inr ''low'' \<and>
   determinePriority (JObj [(''alert_type'', JStr ''info'')]) \<noteq> Inr ''medium''"
  by (simp add: determinePriority_def priority_of_signal_def js_or_def toLowerCase_def
      lower_char_def startsWith_def)


section \<open>Properties: normalisation of the request body\<close>

text \<open>What \<open>str_includes\<close> computes: the second text occurs somewhere in the first.\<close>

lemma startsWith_iff: "startsWith s t \<longleftrightarrow> (\<exists>q. s = t @ q)"
  unfolding startsWith_def by (metis append_eq_conv_conj)

lemma str_includes_iff: "str_includes s t \<longleftrightarrow> (\<exists>p q. s = p @ t @ q)"
proof (induction s)
  case Nil
  then show ?case by auto
next
  case (Cons c s)
  have "(\<exists>p q. c # s = p @ t @ q) \<longleftrightarrow> (\<exists>q. c # s = t @ q) \<or> (\<exists>p q. s = p @ t @ q)"
  proof
    assume "\<exists>p q. c # s = p @ t @ q"
    then obtain p q where pq: "c # s = p @ t @ q" by blast
    show "(\<exists>q. c # s = t @ q) \<or> (\<exists>p q. s = p @ t @ q)"
    proof (cases p)
      case Nil
      with pq show ?thesis by auto
    next
      case (Cons a p')
      with pq have "s = p' @ t @ q" by simp
      then show ?thesis by blast
    qed
  next
    assume "(\<exists>q. c # s = t @ q) \<or> (\<exists>p q. s = p @ t @ q)"
    then show "\<exists>p q. c # s = p @ t @ q"
    proof
      assume "\<exists>q. c # s = t @ q"
      then obtain q where "c # s = [] @ t @ q" by auto
      then show ?thesis by blast
    next
      assume "\<exists>p q. s = p @ t @ q"
      then obtain p q where "c # s = (c # p) @ t @ q" by auto
      then show ?thesis by blast
    qed
  qed
  with Cons startsWith_iff [of "c # s" t] show ?case by simp
qed

text \<open>
  What the other string primitives compute: the first line is the text before the first line
  feed; a replacement leaves a text without the pattern as it is and otherwise rewrites the
  leftmost occurrence; trimming removes white space at both ends and nothing else.
\<close>

lemma first_line_split:
  "\<exists>rest. s = first_line s @ rest \<and> CHR 0x0A \<notin> set (first_line s) \<and>
          (rest = [] \<or> hd rest = CHR 0x0A)"
proof -
  have "s = first_line s @ dropWhile (\<lambda>c. c \<noteq> CHR 0x0A) s"
    by (simp add: first_line_def)
  moreover have "CHR 0x0A \<notin> set (first_line s)"
    unfolding first_line_def by (metis (mono_tags, lifting) set_takeWhileD)
  moreover have "dropWhile (\<lambda>c. c \<noteq> CHR 0x0A) s = [] \<or> hd (dropWhile (\<lambda>c. c \<noteq> CHR 0x0A) s) = CHR 0x0A"
    using hd_dropWhile [of "\<lambda>c. c \<noteq> CHR 0x0A" s] by auto
  ultimately show ?thesis by blast
qed

lemma replace_first_absent:
  "\<not> str_includes s pat \<Longrightarrow> replace_first s pat rep = s"
  by (induction s) auto

lemma replace_first_snoc:
  assumes "\<not> str_includes (p @ b) (b @ [l])"
  shows "replace_first (p @ b @ l # q) (b @ [l]) rep = p @ rep @ q"
  using assms
proof (induction p)
  case Nil
  then show ?case by (cases b) (simp_all add: startsWith_def)
next
  case (Cons c p)
  have ns: "\<not> startsWith (c # p @ b @ l # q) (b @ [l])"
  proof
    assume "startsWith (c # p @ b @ l # q) (b @ [l])"
    then have "take (Suc (length b)) ((c # p @ b) @ (l # q)) = b @ [l]"
      by (simp add: startsWith_def)
    moreover have "Suc (length b) \<le> length (c # p @ b)" by simp
    ultimately have "take (Suc (length b)) (c # p @ b) = b @ [l]"
      by (simp only: take_append) simp
    then have "startsWith ((c # p) @ b) (b @ [l])" by (simp add: startsWith_def)
    with Cons.prems show False by simp
  qed
  from Cons.prems have "\<not> str_includes (p @ b) (b @ [l])" by simp
  with Cons.IH ns show ?case by simp
qed

lemma replace_first_present:
  assumes "\<not> str_includes (p @ butlast pat) pat" "pat \<noteq> []"
  shows "replace_first (p @ pat @ q) pat rep = p @ rep @ q"
proof -
  from assms(2) have pat: "pat = butlast pat @ [last pat]" by simp
  from assms(1) have "\<not> str_includes (p @ butlast pat) (butlast pat @ [last pat])"
    using pat by simp
  from replace_first_snoc [OF this, of q rep] pat show ?thesis
    by (metis append.assoc append_Cons append_Nil)
qed

lemma trim_split:
  "\<exists>a b. s = a @ trim s @ b \<and> list_all is_space a \<and> list_all is_space b"
proof -
  let ?d = "dropWhile is_space s"
  have 1: "s = takeWhile is_space s @ ?d" by simp
  have 2: "?d = trim s @ rev (takeWhile is_space (rev ?d))"
    unfolding trim_def by (metis rev_append rev_rev_ident takeWhile_dropWhile_id)
  have "list_all is_space (takeWhile is_space s)"
    by (simp add: list_all_iff) (meson set_takeWhileD)
  moreover have "list_all is_space (rev (takeWhile is_space (rev ?d)))"
    by (simp add: list_all_iff) (meson set_takeWhileD)
  ultimately show ?thesis using 1 2 by metis
qed

lemma trim_ends:
  assumes "trim s \<noteq> []"
  shows "\<not> is_space (hd (trim s)) \<and> \<not> is_space (last (trim s))"
proof -
  let ?d = "dropWhile is_space s"
  let ?e = "dropWhile is_space (rev ?d)"
  from assms have e: "?e \<noteq> []" by (simp add: trim_def)
  then have h: "\<not> is_space (hd ?e)" using hd_dropWhile by blast
  have d: "?d \<noteq> []"
  proof
    assume "?d = []"
    then have "?e = []" by (simp only: rev.simps(1) dropWhile.simps(1))
    with e show False by blast
  qed
  then have hd: "\<not> is_space (hd ?d)" using hd_dropWhile by blast
  have l: "last (trim s) = hd ?e" using e by (simp add: trim_def last_rev)
  have "hd (trim s) = last ?e" using e by (simp add: trim_def hd_rev)
  also have "\<dots> = last (rev ?d)"
    using e by (metis append_is_Nil_conv last_appendR takeWhile_dropWhile_id)
  also have "\<dots> = hd ?d" using d by (simp add: last_rev)
  finally show ?thesis using h hd l by simp
qed

text \<open>The last step of the handler never changes an alert built from a request body.\<close>

lemma text_alert_title_or_message:
  "truthy (get (text_alert ts textPayload) ''title'') \<or> truthy (get (text_alert ts textPayload) ''message'')"
proof (cases "textPayload = []")
  case True
  then show ?thesis
    by (simp add: text_alert_def Let_def first_line_def trim_def startsWith_def is_space_def)
next
  case False
  then show ?thesis by (simp add: text_alert_def Let_def)
qed

lemma normalize_text: "normalize_body ts (JStr textPayload) = Inr (text_alert ts textPayload)"
  using text_alert_title_or_message [of ts textPayload]
  by (auto simp add: normalize_body_def ensure_title_def)

lemma normalize_json:
  assumes "structured body"
  shows "normalize_body ts body = Inr (json_alert ts body)"
proof -
  have "truthy (get (json_alert ts body) ''title'')"
    by (simp add: json_alert_def js_or_def)
  then have "ensure_title (json_alert ts body) = json_alert ts body"
    by (simp add: ensure_title_def)
  with assms show ?thesis
    by (cases body) (simp_all add: normalize_body_def structured_def)
qed

lemma normalize_rejects:
  "normalize_body ts body = Inl e \<longleftrightarrow> e = InvalidPayload \<and> \<not> is_string body \<and> \<not> structured body"
  by (cases body) (auto simp: normalize_body_def structured_def)

text \<open>
  C3, as amended. For every text payload the alert type is error exactly when the text
  contains [Triggered] or Anomaly Detected, else recovery when it contains Normalized or
  Recovery, else info; the priority is high exactly when the lowercased text contains
  anomaly, else medium; and the title is taken from the first line, or from the default
  line \<^verbatim>\<open>Datadog Alert\<close> when the first line is empty, by removing the first occurrence
  of [Triggered], then the first occurrence of [Recovery], and trimming white space.
\<close>

theorem text_normalization:
  "\<exists>alert. normalize_body ts (JStr textPayload) = Inr alert \<and>
     (get alert ''alert_type'' = JStr ''error'' \<longleftrightarrow>
        str_includes textPayload ''[Triggered]'' \<or> str_includes textPayload ''Anomaly Detected'') \<and>
     (get alert ''alert_type'' = JStr ''recovery'' \<longleftrightarrow>
        \<not> (str_includes textPayload ''[Triggered]'' \<or> str_includes textPayload ''Anomaly Detected'') \<and>
        (str_includes textPayload ''Normalized'' \<or> str_includes textPayload ''Recovery'')) \<and>
     (get alert ''alert_type'' = JStr ''info'' \<longleftrightarrow>
        \<not> (str_includes textPayload ''[Triggered]'' \<or> str_includes textPayload ''Anomaly Detected'') \<and>
        \<not> (str_includes textPayload ''Normalized'' \<or> str_includes textPayload ''Recovery'')) \<and>
     get alert ''title'' = JStr (trim (replace_first (replace_first
         (if first_line textPayload = [] then ''Datadog Alert'' else first_line textPayload)
         ''[Triggered]'' []) ''[Recovery]'' [])) \<and>
     (get alert ''priority'' = JStr ''high'' \<longleftrightarrow> str_includes (toLowerCase textPayload) ''anomaly'') \<and>
     (get alert ''priority'' = JStr ''medium'' \<longleftrightarrow> \<not> str_includes (toLowerCase textPayload) ''anomaly'')"
  unfolding normalize_text
  by (simp add: text_alert_def Let_def)

text \<open>The rule at a triggered alert of two lines.\<close>

theorem text_normalization_witness:
  "\<exists>alert. normalize_body ''2024-05-01T10:00:00.000Z''
       (JStr (''[Triggered] CPU high '' @ [CHR 0x0A] @ ''host: web-1'')) = Inr alert \<and>
     get alert ''alert_type'' = JStr ''error'' \<and>
     get alert ''title'' = JStr ''CPU high'' \<and>
     get alert ''priority'' = JStr ''medium''"
  using text_normalization
    [of "''2024-05-01T10:00:00.000Z''" "''[Triggered] CPU high '' @ [CHR 0x0A] @ ''host: web-1''"]
  by (simp add: normalize_text startsWith_def first_line_def trim_def is_space_def
      toLowerCase_def lower_char_def)

text \<open>
  C3 as stated fails on a text whose first line is empty: the first line without markers,
  trimmed, is the empty text, and the title of the alert is \<^verbatim>\<open>Datadog Alert\<close>.
\<close>

theorem text_title_counterexample:
  "first_line (CHR 0x0A # ''CPU high'') = [] \<and>
   trim (replace_first (replace_first (first_line (CHR 0x0A # ''CPU high'')) ''[Triggered]'' [])
           ''[Recovery]'' []) = [] \<and>
   normalize_body ''2024-05-01T10:00:00.000Z'' (JStr (CHR 0x0A # ''CPU high''))
     = Inr (text_alert ''2024-05-01T10:00:00.000Z'' (CHR 0x0A # ''CPU high'')) \<and>
   get (text_alert ''2024-05-01T10:00:00.000Z'' (CHR 0x0A # ''CPU high'')) ''title''
     = JStr ''Datadog Alert''"
  by (simp add: normalize_text text_alert_def Let_def first_line_def trim_def startsWith_def
      is_space_def)

lemma get_string: "is_string body \<Longrightarrow> get body k = JUndefined"
  by (cases body) simp_all

lemma map_of_replaced:
  "k \<in> set (map fst m) \<Longrightarrow>
   map_of (map (\<lambda>(k', v'). if k' = k then (k', v) else (k', v')) m) k = Some v"
  by (induction m) auto

lemma map_get_map_set: "map_get (map_set m k v) k = Some v"
proof (cases "k \<in> set (map fst m)")
  case True
  then show ?thesis by (simp add: map_get_def map_set_def map_of_replaced del: set_map)
next
  case False
  then have "map_of m k = None" by (simp add: map_of_eq_None_iff)
  with False show ?thesis by (simp add: map_get_def map_set_def map_add_def)
qed

lemma datadog_v1_accepts:
  assumes "truthy (get body ''alert_type'')"
  shows "datadog_v1 now uuid body st =
     (Queued uuid,
      st\<lparr> alertFiles_v1 := (alertFiles_v1 st)(uuid \<mapsto>
             \<lparr> alertId_v1 = uuid, timestamp_v1 = now, originalPayload_v1 = body,
               status_v1 = ''pending_template_selection'',
               processedAt_v1 = None, documentId_v1 = None \<rparr>),
          pendingAlerts_v1 := map_set (pendingAlerts_v1 st) uuid
             \<lparr> alertId_v1 = uuid, timestamp_v1 = now, originalPayload_v1 = body,
               status_v1 = ''pending_template_selection'',
               processedAt_v1 = None, documentId_v1 = None \<rparr> \<rparr>)"
proof -
  from assms have "truthy body" by (cases body) simp_all
  with assms show ?thesis by (simp add: datadog_v1_def Let_def)
qed

text \<open>
  C4, as amended. The route with text and JSON normalisation answers with the invalid-payload
  response exactly when the body is neither a string nor a structured payload (an object or
  an array), and then leaves the state as it was. It never rejects a structured payload:
  the alert type is \<^verbatim>\<open>event_type || alert_type || 'info'\<close>, which is always truthy, so an
  absent alert type becomes info. The earlier version of the route answers with the
  invalid-payload response exactly when the body or its \<^verbatim>\<open>alert_type\<close> is falsy, which
  includes every string body, and then leaves the state as it was; otherwise it stores the
  body as received, without a default.
\<close>

theorem invalid_payload_by_handler:
  "(fst (datadog L now uuid body st) = Rejected InvalidPayload \<longleftrightarrow>
      \<not> is_string body \<and> \<not> structured body) \<and>
   (fst (datadog L now uuid body st) = Rejected InvalidPayload \<longrightarrow>
      snd (datadog L now uuid body st) = st) \<and>
   (structured body \<longrightarrow>
      normalize_body (toISOString L now) body = Inr (json_alert (toISOString L now) body) \<and>
      get (json_alert (toISOString L now) body) ''alert_type''
        = js_or (js_or (get body ''event_type'') (get body ''alert_type'')) (JStr ''info'') \<and>
      truthy (get (json_alert (toISOString L now) body) ''alert_type'')) \<and>
   (structured body \<and> \<not> truthy (get body ''event_type'') \<and> \<not> truthy (get body ''alert_type'') \<longrightarrow>
      get (json_alert (toISOString L now) body) ''alert_type'' = JStr ''info'') \<and>
   (fst (datadog_v1 now uuid body st1) = Rejected InvalidPayload \<longleftrightarrow>
      \<not> truthy body \<or> \<not> truthy (get body ''alert_type'')) \<and>
   (fst (datadog_v1 now uuid body st1) = Rejected InvalidPayload \<longrightarrow>
      snd (datadog_v1 now uuid body st1) = st1) \<and>
   (is_string body \<longrightarrow> fst (datadog_v1 now uuid body st1) = Rejected InvalidPayload) \<and>
   (truthy (get body ''alert_type'') \<longrightarrow>
      fst (datadog_v1 now uuid body st1) = Queued uuid \<and>
      map_option originalPayload_v1 (map_get (pendingAlerts_v1 (snd (datadog_v1 now uuid body st1))) uuid)
        = Some body)"
proof -
  let ?ts = "toISOString L now"
  have ty: "get (json_alert ?ts body) ''alert_type''
        = js_or (js_or (get body ''event_type'') (get body ''alert_type'')) (JStr ''info'')"
    by (simp add: json_alert_def)
  have tr: "truthy (get (json_alert ?ts body) ''alert_type'')"
    unfolding ty by (simp add: js_or_def)
  have rej: "fst (datadog L now uuid body st) = Rejected InvalidPayload \<longleftrightarrow>
      normalize_body ?ts body = Inl InvalidPayload"
  proof (cases "normalize_body ?ts body")
    case (Inl e)
    then show ?thesis by (simp add: datadog_def)
  next
    case (Inr alert)
    then show ?thesis by (simp add: datadog_def Let_def split: option.splits)
  qed
  have unchanged: "fst (datadog L now uuid body st) = Rejected InvalidPayload \<longrightarrow>
      snd (datadog L now uuid body st) = st"
    by (auto simp: datadog_def Let_def split: sum.splits option.splits)
  have current:
    "(fst (datadog L now uuid body st) = Rejected InvalidPayload \<longleftrightarrow>
        \<not> is_string body \<and> \<not> structured body) \<and>
     (structured body \<longrightarrow>
        normalize_body ?ts body = Inr (json_alert ?ts body) \<and>
        get (json_alert ?ts body) ''alert_type''
          = js_or (js_or (get body ''event_type'') (get body ''alert_type'')) (JStr ''info'') \<and>
        truthy (get (json_alert ?ts body) ''alert_type'')) \<and>
     (structured body \<and> \<not> truthy (get body ''event_type'') \<and> \<not> truthy (get body ''alert_type'') \<longrightarrow>
        get (json_alert ?ts body) ''alert_type'' = JStr ''info'')"
    using ty tr rej normalize_json [of body ?ts] normalize_rejects [of ?ts body InvalidPayload]
    by (simp add: js_or_def)
  have v1_rej: "fst (datadog_v1 now uuid body st1) = Rejected InvalidPayload \<longleftrightarrow>
      \<not> truthy body \<or> \<not> truthy (get body ''alert_type'')"
    by (simp add: datadog_v1_def Let_def)
  have v1_unchanged: "fst (datadog_v1 now uuid body st1) = Rejected InvalidPayload \<longrightarrow>
      snd (datadog_v1 now uuid body st1) = st1"
    by (simp add: datadog_v1_def Let_def)
  have v1_string: "is_string body \<longrightarrow> fst (datadog_v1 now uuid body st1) = Rejected InvalidPayload"
    using get_string [of body "''alert_type''"] by (simp add: datadog_v1_def)
  have v1_ok: "truthy (get body ''alert_type'') \<longrightarrow>
      fst (datadog_v1 now uuid body st1) = Queued uuid \<and>
      map_option originalPayload_v1 (map_get (pendingAlerts_v1 (snd (datadog_v1 now uuid body st1))) uuid)
        = Some body"
    by (simp add: datadog_v1_accepts map_get_map_set)
  from current unchanged v1_rej v1_unchanged v1_string v1_ok show ?thesis by blast
qed

text \<open>
  In the current route a number is rejected and changes nothing, and an object without alert
  type is accepted with the alert type info. In the earlier route the same object and a
  text are rejected, and an object with an alert type is stored as received.
\<close>

theorem invalid_payload_by_handler_witness:
  "fst (datadog sample_lib 1714557600000 ''id-1'' (JNum 42) empty_state) = Rejected InvalidPayload \<and>
   snd (datadog sample_lib 1714557600000 ''id-1'' (JNum 42) empty_state) = empty_state \<and>
   structured (JObj [(''title'', JStr ''Disk full'')]) \<and>
   fst (datadog sample_lib 1714557600000 ''id-1'' (JObj [(''title'', JStr ''Disk full'')]) empty_state)
     \<noteq> Rejected InvalidPayload \<and>
   get (json_alert (toISOString sample_lib 1714557600000) (JObj [(''title'', JStr ''Disk full'')]))
     ''alert_type'' = JStr ''info'' \<and>
   fst (datadog_v1 1714557600000 ''id-1'' (JObj [(''title'', JStr ''Disk full'')]) empty_state_v1)
     = Rejected InvalidPayload \<and>
   snd (datadog_v1 1714557600000 ''id-1'' (JObj [(''title'', JStr ''Disk full'')]) empty_state_v1)
     = empty_state_v1 \<and>
   fst (datadog_v1 1714557600000 ''id-1'' (JStr ''CPU high'') empty_state_v1) = Rejected InvalidPayload \<and>
   fst (datadog_v1 1714557600000 ''id-1'' (JObj [(''alert_type'', JStr ''error'')]) empty_state_v1)
     = Queued ''id-1'' \<and>
   map_option originalPayload_v1
     (map_get (pendingAlerts_v1
        (snd (datadog_v1 1714557600000 ''id-1'' (JObj [(''alert_type'', JStr ''error'')]) empty_state_v1)))
        ''id-1'')
     = Some (JObj [(''alert_type'', JStr ''error'')])"
  using invalid_payload_by_handler [of sample_lib 1714557600000 "''id-1''" "JNum 42" empty_state
      empty_state_v1]
    invalid_payload_by_handler [of sample_lib 1714557600000 "''id-1''"
      "JObj [(''title'', JStr ''Disk full'')]" empty_state empty_state_v1]
    invalid_payload_by_handler [of sample_lib 1714557600000 "''id-1''"
      "JStr ''CPU high''" empty_state empty_state_v1]
    invalid_payload_by_handler [of sample_lib 1714557600000 "''id-1''"
      "JObj [(''alert_type'', JStr ''error'')]" empty_state empty_state_v1]
  by (simp add: structured_def js_or_def)

text \<open>
  C4 as stated fails. The earlier route rejects a body that is a string, which the claim
  accepts. And on a structured payload without alert type the two routes disagree: the
  earlier one rejects it, the current one accepts it with the alert type info, so neither
  the rejection nor the default holds of both.
\<close>

theorem string_body_counterexample:
  "is_string (JStr ''CPU high'') \<and>
   fst (datadog_v1 1714557600000 ''id-1'' (JStr ''CPU high'') empty_state_v1) = Rejected InvalidPayload \<and>
   fst (datadog sample_lib 1714557600000 ''id-1'' (JStr ''CPU high'') empty_state) = Queued ''id-1'' \<and>
   structured (JObj [(''title'', JStr ''Disk full'')]) \<and>
   get (JObj [(''title'', JStr ''Disk full'')]) ''event_type'' = JUndefined \<and>
   get (JObj [(''title'', JStr ''Disk full'')]) ''alert_type'' = JUndefined \<and>
   fst (datadog_v1 1714557600000 ''id-1'' (JObj [(''title'', JStr ''Disk full'')]) empty_state_v1)
     = Rejected InvalidPayload \<and>
   fst (datadog sample_lib 1714557600000 ''id-1'' (JObj [(''title'', JStr ''Disk full'')]) empty_state)
     = Queued ''id-1''"
proof -
  have s: "structured (JObj [(''title'', JStr ''Disk full'')])" by (simp add: structured_def)
  have a: "fst (datadog sample_lib 1714557600000 ''id-1'' (JStr ''CPU high'') empty_state) = Queued ''id-1''"
    by (simp add: datadog_def normalize_text Let_def empty_state_def map_values_def)
  have b: "fst (datadog sample_lib 1714557600000 ''id-1'' (JObj [(''title'', JStr ''Disk full'')]) empty_state)
     = Queued ''id-1''"
    by (simp add: datadog_def normalize_json [OF s] Let_def empty_state_def map_values_def)
  from s a b show ?thesis by (simp add: datadog_v1_def)
qed

section \<open>Properties: deduplication\<close>

lemma find_hash_None:
  "find (\<lambda>a. alertHash a = h) (map_values m) = None \<longleftrightarrow> h \<notin> set (map alertHash (map_values m))"
  by (auto simp: find_None_iff map_values_def)


lemma map_set_fresh: "k \<notin> set (map fst m) \<Longrightarrow> map_set m k v = m @ [(k, v)]"
  by (simp add: map_set_def)

lemma map_set_keys: "k \<in> set (map fst m) \<Longrightarrow> map fst (map_set m k v) = map fst m"
  by (induction m) (auto simp: map_set_def)

lemma map_replace_absent:
  "k \<notin> set (map fst zs) \<Longrightarrow> map (\<lambda>(k', v'). if k' = k then (k', v) else (k', v')) zs = zs"
  by (induction zs) auto

lemma map_set_replace_values:
  assumes "distinct (map fst m)" "k \<in> set (map fst m)"
  shows "\<exists>xs old ys. m = xs @ (k, old) # ys \<and> map_set m k v = xs @ (k, v) # ys
           \<and> k \<notin> set (map fst xs) \<and> k \<notin> set (map fst ys)"
proof -
  from assms(2) obtain old where "(k, old) \<in> set m" by auto
  then obtain xs ys where m: "m = xs @ (k, old) # ys" by (meson split_list)
  with assms(1) have nk: "k \<notin> set (map fst xs)" "k \<notin> set (map fst ys)" by auto
  with m have "map_set m k v = xs @ (k, v) # ys"
    using assms(2) by (simp add: map_set_def map_replace_absent)
  with m nk show ?thesis by blast
qed

lemma inv_insert:
  assumes inv: "distinct (map fst m)" "list_all (\<lambda>(k, a). alertId a = k) m"
      "distinct (map alertHash (map snd m))"
    and new: "alertHash ad \<notin> set (map alertHash (map snd m))" "alertId ad = k"
  shows "distinct (map fst (map_set m k ad)) \<and> list_all (\<lambda>(k, a). alertId a = k) (map_set m k ad)
     \<and> distinct (map alertHash (map snd (map_set m k ad)))"
proof (cases "k \<in> set (map fst m)")
  case False
  with inv new show ?thesis by (simp add: map_set_fresh)
next
  case True
  from map_set_replace_values [OF inv(1) True, of ad]
  obtain xs old ys where m: "m = xs @ (k, old) # ys" and s: "map_set m k ad = xs @ (k, ad) # ys"
    and nk: "k \<notin> set (map fst xs)" "k \<notin> set (map fst ys)" by blast
  from inv new show ?thesis unfolding s unfolding m by auto
qed

lemma inv_datadog:
  assumes "pending_inv st"
  shows "pending_inv (snd (datadog L now uuid body st))"
proof (cases "normalize_body (toISOString L now) body")
  case (Inl e)
  with assms show ?thesis by (simp add: datadog_def)
next
  case (Inr alert)
  let ?h = "generateAlertHash L now alert"
  show ?thesis
  proof (cases "find (\<lambda>a. alertHash a = ?h) (map_values (pendingAlerts st))")
    case (Some e)
    with Inr assms show ?thesis by (simp add: datadog_def Let_def)
  next
    case None
    then have "?h \<notin> set (map alertHash (map snd (pendingAlerts st)))"
      using find_hash_None [of ?h "pendingAlerts st"] by (simp add: map_values_def)
    with assms inv_insert [of "pendingAlerts st"
        "\<lparr> alertId = uuid, timestamp = now, alertHash = ?h, originalPayload = alert,
           status = ''pending_template_selection'', processedAt = None, documentId = None,
           templateId = None \<rparr>" uuid]
    show ?thesis using Inr None
      by (simp add: datadog_def Let_def pending_inv_def pending_wf_def pending_hashes_def map_values_def)
  qed
qed

lemma updateTemplateUsage_pending [simp]:
  "pendingAlerts (updateTemplateUsage now tid st) = pendingAlerts st"
  by (simp add: updateTemplateUsage_def split: option.splits)

lemma generateDocument_pending:
  "pendingAlerts (snd (generateDocument L now uuid a tid st)) = pendingAlerts st"
  by (simp add: generateDocument_def Let_def split: option.splits sum.splits)

lemma generateDocument_pending_eq:
  "generateDocument L now uuid a tid st = (r, st') \<Longrightarrow> pendingAlerts st' = pendingAlerts st"
  using generateDocument_pending [of L now uuid a tid st] by simp

lemma process_alert_pending:
  "pendingAlerts (snd (process_alert L now uuid aid tid st)) = pendingAlerts st \<or>
   pendingAlerts (snd (process_alert L now uuid aid tid st)) = map_delete (pendingAlerts st) aid"
  by (auto simp: process_alert_def Let_def split: option.splits sum.splits prod.splits
      dest: generateDocument_pending_eq)

lemma inv_delete:
  assumes "pending_inv st" "pendingAlerts st' = map_delete (pendingAlerts st) aid"
  shows "pending_inv st'"
  using assms
  by (auto simp: pending_inv_def pending_wf_def pending_hashes_def map_values_def map_delete_def
      distinct_map_filter list_all_iff)

lemma inv_process:
  assumes "pending_inv st"
  shows "pending_inv (snd (process_alert L now uuid aid tid st))"
  using process_alert_pending [of L now uuid aid tid st] assms inv_delete
  by (auto simp: pending_inv_def pending_wf_def pending_hashes_def)

lemma inv_run: "pending_inv st \<Longrightarrow> pending_inv (run L ops st)"
proof (induction ops arbitrary: st)
  case Nil
  then show ?case by simp
next
  case (Cons x xs)
  have "pending_inv (step L x st)"
    using Cons.prems by (cases x) (simp_all add: inv_datadog inv_process)
  then show ?case using Cons.IH by simp
qed

text \<open>
  C7. In every state reached from a server start (empty pending Map) by any sequence of
  ingest and process operations, whatever the clock values, generated ids and requests,
  no two pending alerts carry the same fingerprint.
\<close>

theorem fingerprint_unique:
  assumes "pendingAlerts st0 = []"
  shows "distinct (pending_hashes (run L ops st0))"
proof -
  from assms have "pending_inv st0"
    by (simp add: pending_inv_def pending_wf_def pending_hashes_def map_values_def)
  then have "pending_inv (run L ops st0)" by (rule inv_run)
  then show ?thesis by (simp add: pending_inv_def)
qed

lemma normalize_cases:
  assumes "normalize_body ts body = Inr a"
  shows "(\<exists>t. body = JStr t \<and> a = text_alert ts t) \<or> (structured body \<and> a = json_alert ts body)"
proof (cases "is_string body")
  case True
  then obtain t where "body = JStr t" by (cases body) auto
  with assms show ?thesis by (simp add: normalize_text)
next
  case False
  with assms have "structured body"
    by (cases body) (auto simp: normalize_body_def structured_def split: if_splits)
  with assms show ?thesis by (simp add: normalize_json)
qed

lemma normalized_event_title:
  assumes "normalize_body ts body = Inr a"
  shows "get a ''event_title'' = JUndefined"
  using normalize_cases [OF assms]
  by (auto simp: text_alert_def json_alert_def Let_def)

lemma hash_same:
  assumes "normalize_body ts1 body1 = Inr a1" "normalize_body ts2 body2 = Inr a2"
    and "now1 div 300000 = now2 div 300000"
    and "get a1 ''alert_type'' = get a2 ''alert_type''" "get a1 ''title'' = get a2 ''title''"
    and "get a1 ''org'' = get a2 ''org''" "get a1 ''id'' = get a2 ''id''"
  shows "generateAlertHash L now1 a1 = generateAlertHash L now2 a2"
proof -
  have "hashData now1 a1 = hashData now2 a2"
    using assms(3-) normalized_event_title [OF assms(1)] normalized_event_title [OF assms(2)]
    by (simp add: hashData_def)
  then show ?thesis by (simp add: generateAlertHash_def hashString_def)
qed

lemma datadog_dup:
  assumes "normalize_body (toISOString L now) body = Inr a"
    and "find (\<lambda>x. alertHash x = generateAlertHash L now a) (map_values (pendingAlerts st)) = Some e"
  shows "datadog L now uuid body st = (Duplicate (alertId e), st)"
  using assms by (simp add: datadog_def Let_def)

lemma datadog_new:
  assumes "normalize_body (toISOString L now) body = Inr a"
    and "find (\<lambda>x. alertHash x = generateAlertHash L now a) (map_values (pendingAlerts st)) = None"
  shows "datadog L now uuid body st =
     (Queued uuid,
      st\<lparr> alertFiles := (alertFiles st)(uuid \<mapsto>
             \<lparr> alertId = uuid, timestamp = now, alertHash = generateAlertHash L now a,
               originalPayload = a, status = ''pending_template_selection'',
               processedAt = None, documentId = None, templateId = None \<rparr>),
          pendingAlerts := map_set (pendingAlerts st) uuid
             \<lparr> alertId = uuid, timestamp = now, alertHash = generateAlertHash L now a,
               originalPayload = a, status = ''pending_template_selection'',
               processedAt = None, documentId = None, templateId = None \<rparr> \<rparr>)"
  using assms by (simp add: datadog_def Let_def)
























lemma process_alert_success:
  assumes "process_alert L now uuid aid tid st = (Inr doc, st1)"
  shows "pendingAlerts st1 = map_delete (pendingAlerts st) aid"
  using assms
  by (auto simp: process_alert_def Let_def split: option.splits sum.splits prod.splits if_splits
      dest: generateDocument_pending_eq)

lemma distinct_map_eq:
  "distinct (map f xs) \<Longrightarrow> p \<in> set xs \<Longrightarrow> q \<in> set xs \<Longrightarrow> f p = f q \<Longrightarrow> p = q"
  by (meson distinct_map inj_on_def)

text \<open>
  C9. In a reachable state, let the pending alert \<open>aid\<close> carry a fingerprint and be
  processed successfully. An ingest that computes the same fingerprint afterwards (the
  same payload in the same bucket) is answered with the newly generated id and without the
  duplicate flag, and adds a pending alert under that id; the processed alert is no longer
  pending.
\<close>

theorem reingest_after_process:
  assumes reach: "pendingAlerts st0 = []" "st = run L ops st0"
    and pend: "map_get (pendingAlerts st) aid = Some e"
    and proc: "process_alert L now1 uuid1 aid tid st = (Inr doc, st1)"
    and n: "normalize_body (toISOString L now) body = Inr alert"
    and same: "generateAlertHash L now alert = alertHash e"
  shows "fst (datadog L now uuid body st1) = Queued uuid \<and>
         pendingAlerts (snd (datadog L now uuid body st1)) =
           map_set (pendingAlerts st1) uuid
             \<lparr> alertId = uuid, timestamp = now, alertHash = alertHash e,
               originalPayload = alert, status = ''pending_template_selection'',
               processedAt = None, documentId = None, templateId = None \<rparr> \<and>
         map_get (pendingAlerts st1) aid = None"
proof -
  from reach have inv: "pending_inv st"
    using inv_run [of st0 L ops]
    by (simp add: pending_inv_def pending_wf_def pending_hashes_def map_values_def)
  let ?m = "pendingAlerts st"
  from pend have mem: "(aid, e) \<in> set ?m" by (simp add: map_get_def map_of_SomeD)
  have p1: "pendingAlerts st1 = map_delete ?m aid" using proc by (rule process_alert_success)
  have "alertHash e \<notin> set (map alertHash (map_values (pendingAlerts st1)))"
  proof
    assume "alertHash e \<in> set (map alertHash (map_values (pendingAlerts st1)))"
    then obtain k x where x: "(k, x) \<in> set ?m" "k \<noteq> aid" "alertHash x = alertHash e"
      unfolding p1 by (auto simp: map_values_def map_delete_def)
    from inv have "distinct (map (\<lambda>p. alertHash (snd p)) ?m)"
      by (simp add: pending_inv_def pending_hashes_def map_values_def comp_def)
    from distinct_map_eq [OF this x(1) mem] x show False by simp
  qed
  then have none: "find (\<lambda>x. alertHash x = generateAlertHash L now alert)
      (map_values (pendingAlerts st1)) = None"
    using find_hash_None [of "alertHash e" "pendingAlerts st1"] same by simp
  have gone: "map_get (pendingAlerts st1) aid = None"
    unfolding p1 by (auto simp: map_get_def map_delete_def map_of_eq_None_iff)
  from datadog_new [OF n none, of uuid] same gone show ?thesis by simp
qed

subsection \<open>The deduplication theorems on concrete requests\<close>



text \<open>
  The different-id half of the deduplication property is stated for titles that are strings.
  A title that is an object is written \<^verbatim>\<open>{}\<close> in the hashed text, because the replacer array
  (the sorted keys of the hashed object) also selects the properties of nested objects: two
  JSON payloads whose titles are different objects have the same hashed text.
\<close>

lemma object_titles_collide:
  "get (json_alert ''2024-05-01T10:00:00.000Z'' (JObj [(''title'', JObj [(''a'', JNum 1)])])) ''title''
     \<noteq> get (json_alert ''2024-05-01T10:01:00.000Z'' (JObj [(''title'', JObj [(''b'', JNum 2)])])) ''title'' \<and>
   hashString 1714557600000
       (json_alert ''2024-05-01T10:00:00.000Z'' (JObj [(''title'', JObj [(''a'', JNum 1)])]))
     = hashString 1714557660000
       (json_alert ''2024-05-01T10:01:00.000Z'' (JObj [(''title'', JObj [(''b'', JNum 2)])]))"
  by code_simp

lemma sample_first_ingest:
  "datadog sample_lib 1714557600000 ''a-1'' (JStr ''[Triggered] CPU high'') sample_state
     = (Queued ''a-1'',
        sample_state\<lparr> alertFiles := (alertFiles sample_state)(''a-1'' \<mapsto>
             \<lparr> alertId = ''a-1'', timestamp = 1714557600000,
               alertHash = generateAlertHash sample_lib 1714557600000
                 (text_alert (toISOString sample_lib 1714557600000) ''[Triggered] CPU high''),
               originalPayload = text_alert (toISOString sample_lib 1714557600000) ''[Triggered] CPU high'',
               status = ''pending_template_selection'',
               processedAt = None, documentId = None, templateId = None \<rparr>),
          pendingAlerts :=
            [(''a-1'', \<lparr> alertId = ''a-1'', timestamp = 1714557600000,
               alertHash = generateAlertHash sample_lib 1714557600000
                 (text_alert (toISOString sample_lib 1714557600000) ''[Triggered] CPU high''),
               originalPayload = text_alert (toISOString sample_lib 1714557600000) ''[Triggered] CPU high'',
               status = ''pending_template_selection'',
               processedAt = None, documentId = None, templateId = None \<rparr>)] \<rparr>)"
  by (subst datadog_new [where a = "text_alert (toISOString sample_lib 1714557600000) ''[Triggered] CPU high''"])
    (simp_all add: normalize_text sample_state_def map_values_def map_set_def)


lemma sample_titles:
  "get (text_alert ts ''[Triggered] CPU high'') ''title'' = JStr ''CPU high''"
  "get (text_alert ts ''[Triggered] Disk full'') ''title'' = JStr ''Disk full''"
  "get (text_alert ts ''[Triggered] CPU high'') ''alert_type'' = JStr ''error''"
  "get (text_alert ts ''[Triggered] Disk full'') ''alert_type'' = JStr ''error''"
  "get (text_alert ts ''[Triggered] CPU high'') ''org'' = JUndefined"
  "get (text_alert ts ''[Triggered] Disk full'') ''org'' = JUndefined"
  "get (text_alert ts ''[Triggered] CPU high'') ''id'' = JUndefined"
  "get (text_alert ts ''[Triggered] Disk full'') ''id'' = JUndefined"
  by (simp_all add: text_alert_def Let_def first_line_def trim_def is_space_def startsWith_def)



lemma sample_hash_same:
  "generateAlertHash sample_lib 1714557660000
      (text_alert (toISOString sample_lib 1714557660000) ''[Triggered] CPU high'')
   = generateAlertHash sample_lib 1714557600000
      (text_alert (toISOString sample_lib 1714557600000) ''[Triggered] CPU high'')"
  by (rule hash_same [where ?body1.0 = "JStr ''[Triggered] CPU high''"
        and ?body2.0 = "JStr ''[Triggered] CPU high''"
        and ?ts1.0 = "toISOString sample_lib 1714557660000"
        and ?ts2.0 = "toISOString sample_lib 1714557600000"])
    (simp_all add: normalize_text sample_titles)

lemma sample_second_ingest:
  "datadog sample_lib 1714557660000 ''a-2'' (JStr ''[Triggered] CPU high'')
      (snd (datadog sample_lib 1714557600000 ''a-1'' (JStr ''[Triggered] CPU high'') sample_state))
   = (Duplicate ''a-1'',
      snd (datadog sample_lib 1714557600000 ''a-1'' (JStr ''[Triggered] CPU high'') sample_state))"
proof -
  let ?e = "\<lparr> alertId = ''a-1'', timestamp = 1714557600000,
               alertHash = generateAlertHash sample_lib 1714557600000
                 (text_alert (toISOString sample_lib 1714557600000) ''[Triggered] CPU high''),
               originalPayload = text_alert (toISOString sample_lib 1714557600000) ''[Triggered] CPU high'',
               status = ''pending_template_selection'',
               processedAt = None, documentId = None, templateId = None \<rparr>"
  let ?S1 = "snd (datadog sample_lib 1714557600000 ''a-1'' (JStr ''[Triggered] CPU high'') sample_state)"
  have "find (\<lambda>x. alertHash x = generateAlertHash sample_lib 1714557660000
                (text_alert (toISOString sample_lib 1714557660000) ''[Triggered] CPU high''))
          (map_values (pendingAlerts ?S1)) = Some ?e"
    unfolding sample_hash_same by (simp add: sample_first_ingest map_values_def)
  from datadog_dup [OF normalize_text this, of "''a-2''"] show ?thesis by simp
qed

text \<open>
  The invariant after two ingests of the same payload in one bucket: one pending alert.
\<close>

theorem fingerprint_unique_witness:
  "distinct (pending_hashes (run sample_lib
      [Ingest 1714557600000 ''a-1'' (JStr ''[Triggered] CPU high''),
       Ingest 1714557660000 ''a-2'' (JStr ''[Triggered] CPU high'')] sample_state)) \<and>
   map fst (pendingAlerts (run sample_lib
      [Ingest 1714557600000 ''a-1'' (JStr ''[Triggered] CPU high''),
       Ingest 1714557660000 ''a-2'' (JStr ''[Triggered] CPU high'')] sample_state)) = [''a-1'']"
proof -
  have "pendingAlerts sample_state = []" by (simp add: sample_state_def)
  from fingerprint_unique [OF this, of sample_lib
      "[Ingest 1714557600000 ''a-1'' (JStr ''[Triggered] CPU high''),
        Ingest 1714557660000 ''a-2'' (JStr ''[Triggered] CPU high'')]"]
  show ?thesis by (simp add: sample_second_ingest) (simp add: sample_first_ingest)
qed

lemma prepare_ok:
  "determinePriority a = Inr p \<Longrightarrow> \<exists>ctx. prepareTemplateContext L now a = Inr ctx"
  by (simp add: prepareTemplateContext_def Let_def)

lemma sample_priority:
  "determinePriority (text_alert ts ''[Triggered] CPU high'') = Inr ''medium''"
  by (simp add: determinePriority_def text_alert_def Let_def js_or_def priority_of_signal_def
      toLowerCase_def lower_char_def startsWith_def)

lemma sample_render:
  "handlebars sample_lib (JStr ''Alert: {{alert.title}}'') ctx = Inr ''Alert: {{alert.title}}''"
  by (simp add: sample_lib_def startsWith_def)

lemma sample_process:
  "\<exists>doc. process_alert sample_lib 1714557720000 ''d-1'' ''a-1'' ''t-1''
      (snd (datadog sample_lib 1714557600000 ''a-1'' (JStr ''[Triggered] CPU high'') sample_state))
   = (Inr doc,
      snd (process_alert sample_lib 1714557720000 ''d-1'' ''a-1'' ''t-1''
        (snd (datadog sample_lib 1714557600000 ''a-1'' (JStr ''[Triggered] CPU high'') sample_state))))"
proof -
  from prepare_ok [OF sample_priority] obtain ctx where
    "prepareTemplateContext sample_lib 1714557720000
       (text_alert (toISOString sample_lib 1714557600000) ''[Triggered] CPU high'') = Inr ctx"
    by blast
  moreover have "templateFiles sample_state ''t-1'' = Some sample_template"
    "content sample_template = ''Alert: {{alert.title}}''"
    by (simp_all add: sample_state_def sample_template_def)
  ultimately show ?thesis
    by (simp add: sample_first_ingest process_alert_def map_get_def generateDocument_def
        sample_priority sample_render Let_def)
qed

text \<open>
  The theorem at an alert that is ingested, processed with the stored template, and
  ingested again one minute after the first time.
\<close>

theorem reingest_after_process_witness:
  "map_get (pendingAlerts
      (snd (datadog sample_lib 1714557600000 ''a-1'' (JStr ''[Triggered] CPU high'') sample_state)))
      ''a-1'' \<noteq> None \<and>
   fst (datadog sample_lib 1714557660000 ''a-2'' (JStr ''[Triggered] CPU high'')
     (snd (process_alert sample_lib 1714557720000 ''d-1'' ''a-1'' ''t-1''
        (snd (datadog sample_lib 1714557600000 ''a-1'' (JStr ''[Triggered] CPU high'') sample_state)))))
     = Queued ''a-2'' \<and>
   map_get (pendingAlerts
     (snd (process_alert sample_lib 1714557720000 ''d-1'' ''a-1'' ''t-1''
        (snd (datadog sample_lib 1714557600000 ''a-1'' (JStr ''[Triggered] CPU high'') sample_state)))))
     ''a-1'' = None"
proof -
  let ?S1 = "snd (datadog sample_lib 1714557600000 ''a-1'' (JStr ''[Triggered] CPU high'') sample_state)"
  let ?e = "\<lparr> alertId = ''a-1'', timestamp = 1714557600000,
               alertHash = generateAlertHash sample_lib 1714557600000
                 (text_alert (toISOString sample_lib 1714557600000) ''[Triggered] CPU high''),
               originalPayload = text_alert (toISOString sample_lib 1714557600000) ''[Triggered] CPU high'',
               status = ''pending_template_selection'',
               processedAt = None, documentId = None, templateId = None \<rparr>"
  from sample_process obtain doc where
    p: "process_alert sample_lib 1714557720000 ''d-1'' ''a-1'' ''t-1'' ?S1
      = (Inr doc, snd (process_alert sample_lib 1714557720000 ''d-1'' ''a-1'' ''t-1'' ?S1))"
    by blast
  have reach: "pendingAlerts sample_state = []"
    "?S1 = run sample_lib [Ingest 1714557600000 ''a-1'' (JStr ''[Triggered] CPU high'')] sample_state"
    by (simp_all add: sample_state_def)
  have pend: "map_get (pendingAlerts ?S1) ''a-1'' = Some ?e"
    by (simp add: sample_first_ingest map_get_def)
  have n: "normalize_body (toISOString sample_lib 1714557660000) (JStr ''[Triggered] CPU high'')
      = Inr (text_alert (toISOString sample_lib 1714557660000) ''[Triggered] CPU high'')"
    by (rule normalize_text)
  have same: "generateAlertHash sample_lib 1714557660000
      (text_alert (toISOString sample_lib 1714557660000) ''[Triggered] CPU high'') = alertHash ?e"
    by (simp add: sample_hash_same)
  from reingest_after_process [OF reach pend p n same, of "''a-2''"] pend
  show ?thesis by simp
qed

section \<open>Properties: rendering and template usage\<close>

lemma updateTemplateUsage_template:
  assumes "templateFiles st tid = Some t"
  shows "templateFiles (updateTemplateUsage now tid st) tid
     = Some (t\<lparr> usageCount := Some (count_of t + 1), lastUsed := Some now \<rparr>)"
  using assms by (simp add: updateTemplateUsage_def count_of_def)

lemma generateDocument_success:
  assumes "generateDocument L now uuid a tid st = (Inr doc, st1)"
  shows "\<exists>t ctx. templateFiles st tid = Some t \<and> prepareTemplateContext L now a = Inr ctx \<and>
           handlebars L (JStr (content t)) ctx = Inr (doc_content doc) \<and>
           doc_id doc = uuid \<and>
           st1 = updateTemplateUsage now tid (st\<lparr> documentFiles := (documentFiles st)(uuid \<mapsto> doc) \<rparr>)"
  using assms
  by (auto simp: generateDocument_def Let_def split: option.splits sum.splits)

lemma generateDocument_ok:
  assumes "templateFiles st tid = Some t" "determinePriority a = Inr p"
    and "\<And>ctx. handlebars L (JStr (content t)) ctx = Inr r"
  shows "\<exists>doc. generateDocument L now uuid a tid st
           = (Inr doc, snd (generateDocument L now uuid a tid st))"
proof -
  from prepare_ok [OF assms(2)] obtain ctx where
    "prepareTemplateContext L now a = Inr ctx" by blast
  with assms show ?thesis by (simp add: generateDocument_def Let_def)
qed

text \<open>
  C5. For a template that exists, two successive successful renders each increase the
  stored usage count by exactly 1 (a missing count is read as 0) and set the last-used
  timestamp to the clock of the render, so the timestamps do not decrease when the clock
  does not; and a template that the create route has just stored has the usage count 0.
\<close>

theorem usage_count_increments:
  assumes ex: "templateFiles st tid = Some t"
    and g1: "generateDocument L now1 uuid1 alert1 tid st = (Inr doc1, st1)"
    and g2: "generateDocument L now2 uuid2 alert2 tid st1 = (Inr doc2, st2)"
    and clock: "now1 \<le> now2"
  shows "(\<exists>t1 t2 u1 u2. templateFiles st1 tid = Some t1 \<and> templateFiles st2 tid = Some t2 \<and>
           usageCount t1 = Some (count_of t + 1) \<and> usageCount t2 = Some (count_of t1 + 1) \<and>
           lastUsed t1 = Some u1 \<and> lastUsed t2 = Some u2 \<and> u1 = now1 \<and> u2 = now2 \<and> u1 \<le> u2) \<and>
         (create_template now0 uuid0 name_f description_f category_f content_f st0 = (Inr t0, st0')
            \<longrightarrow> usageCount t0 = Some 0 \<and> templateFiles st0' uuid0 = Some t0)"
proof
  from generateDocument_success [OF g1]
  have s1: "st1 = updateTemplateUsage now1 tid (st\<lparr> documentFiles := (documentFiles st)(uuid1 \<mapsto> doc1) \<rparr>)"
    by blast
  let ?t1 = "t\<lparr> usageCount := Some (count_of t + 1), lastUsed := Some now1 \<rparr>"
  have t1: "templateFiles st1 tid = Some ?t1"
    unfolding s1 using ex by (simp add: updateTemplateUsage_template)
  from generateDocument_success [OF g2]
  have s2: "st2 = updateTemplateUsage now2 tid (st1\<lparr> documentFiles := (documentFiles st1)(uuid2 \<mapsto> doc2) \<rparr>)"
    by blast
  let ?t2 = "?t1\<lparr> usageCount := Some (count_of ?t1 + 1), lastUsed := Some now2 \<rparr>"
  have t2: "templateFiles st2 tid = Some ?t2"
    unfolding s2 using t1 by (simp add: updateTemplateUsage_template)
  from t1 t2 clock
  show "\<exists>t1 t2 u1 u2. templateFiles st1 tid = Some t1 \<and> templateFiles st2 tid = Some t2 \<and>
           usageCount t1 = Some (count_of t + 1) \<and> usageCount t2 = Some (count_of t1 + 1) \<and>
           lastUsed t1 = Some u1 \<and> lastUsed t2 = Some u2 \<and> u1 = now1 \<and> u2 = now2 \<and> u1 \<le> u2"
    by simp
next
  show "create_template now0 uuid0 name_f description_f category_f content_f st0 = (Inr t0, st0')
            \<longrightarrow> usageCount t0 = Some 0 \<and> templateFiles st0' uuid0 = Some t0"
    by (auto simp: create_template_def Let_def split: if_splits sum.splits)
qed

lemma sample_template_file:
  "templateFiles sample_state ''t-1'' = Some sample_template"
  "content sample_template = ''Alert: {{alert.title}}''"
  "count_of sample_template = 0"
  by (simp_all add: sample_state_def sample_template_def count_of_def)

text \<open>
  Two renders of the stored template, one minute apart, and a newly created template.
\<close>

theorem usage_count_increments_witness:
  "(\<exists>t1 t2. templateFiles (snd (generateDocument sample_lib 1714557720000 ''d-1''
                (text_alert ''2024-05-01T10:00:00.000Z'' ''[Triggered] CPU high'') ''t-1'' sample_state))
              ''t-1'' = Some t1 \<and>
            templateFiles (snd (generateDocument sample_lib 1714557780000 ''d-2''
                (text_alert ''2024-05-01T10:00:00.000Z'' ''[Triggered] CPU high'') ''t-1''
                (snd (generateDocument sample_lib 1714557720000 ''d-1''
                   (text_alert ''2024-05-01T10:00:00.000Z'' ''[Triggered] CPU high'') ''t-1'' sample_state))))
              ''t-1'' = Some t2 \<and>
            usageCount t1 = Some 1 \<and> usageCount t2 = Some 2 \<and>
            lastUsed t1 = Some 1714557720000 \<and> lastUsed t2 = Some 1714557780000) \<and>
   usageCount (projr (fst (create_template 1714557000000 ''t-2'' (JStr ''Report'') JUndefined JUndefined
                  (JStr ''Body'') sample_state))) = Some 0"
proof -
  let ?a = "text_alert ''2024-05-01T10:00:00.000Z'' ''[Triggered] CPU high''"
  let ?G1 = "generateDocument sample_lib 1714557720000 ''d-1'' ?a ''t-1'' sample_state"
  let ?G2 = "generateDocument sample_lib 1714557780000 ''d-2'' ?a ''t-1'' (snd ?G1)"
  let ?C = "create_template 1714557000000 ''t-2'' (JStr ''Report'') JUndefined JUndefined
                  (JStr ''Body'') sample_state"
  from generateDocument_ok [OF sample_template_file(1) sample_priority,
      of sample_lib "''Alert: {{alert.title}}''" 1714557720000 "''d-1''"]
  obtain doc1 where g1: "?G1 = (Inr doc1, snd ?G1)"
    by (auto simp: sample_template_file sample_render)
  from generateDocument_success [OF g1] have
    "snd ?G1 = updateTemplateUsage 1714557720000 ''t-1''
        (sample_state\<lparr> documentFiles := (documentFiles sample_state)(''d-1'' \<mapsto> doc1) \<rparr>)" by blast
  then have t1: "templateFiles (snd ?G1) ''t-1''
      = Some (sample_template\<lparr> usageCount := Some 1, lastUsed := Some 1714557720000 \<rparr>)"
    by (simp add: updateTemplateUsage_template sample_template_file)
  from generateDocument_ok [OF t1 sample_priority,
      of sample_lib "''Alert: {{alert.title}}''" 1714557780000 "''d-2''"]
  obtain doc2 where g2: "?G2 = (Inr doc2, snd ?G2)"
    by (auto simp: sample_template_file sample_render)
  have c: "?C = (Inr (projr (fst ?C)), snd ?C)"
    by (simp add: create_template_def call_trim_def trim_or_def opt_trim_def Let_def)
  from usage_count_increments [OF sample_template_file(1) g1 g2, of 1714557000000 "''t-2''"
      "JStr ''Report''" JUndefined JUndefined "JStr ''Body''" sample_state "projr (fst ?C)" "snd ?C"] c
  show ?thesis by (auto simp: sample_template_file count_of_def sample_template_def)
qed


section \<open>Properties: preview\<close>

lemma normalized_priority:
  assumes "normalize_body ts body = Inr a"
  shows "\<exists>p. determinePriority a = Inr p"
proof -
  have hi: "priority_of_signal ''high'' = Some ''high''"
    and med: "priority_of_signal ''medium'' = Some ''medium''"
    by (simp_all add: priority_of_signal_def toLowerCase_def lower_char_def startsWith_def)
  from normalize_cases [OF assms] show ?thesis
  proof
    assume "\<exists>t. body = JStr t \<and> a = text_alert ts t"
    then show ?thesis
      by (auto simp: determinePriority_def text_alert_def Let_def js_or_def hi med)
  next
    assume "structured body \<and> a = json_alert ts body"
    then show ?thesis
      by (simp add: determinePriority_def json_alert_def js_or_def med)
  qed
qed

text \<open>
  C6. The preview returns a result for every template body and alert, and returns the
  state as it received it: no document is stored and no usage count changes. The result
  is the text rendered from the context of \<open>prepareTemplateContext\<close>, or the failure
  with the message of the error that the template engine raised. For a normalized alert the
  context always exists, so the only failure is that of the engine. Live generation renders
  the stored body against the same context: whenever it succeeds, the preview of that body
  returns the content of the generated document.
\<close>

theorem preview_is_pure:
  "snd (previewTemplate L now templateContent alertData st) = st \<and>
   fst (previewTemplate L now templateContent alertData st) =
     (case prepareTemplateContext L now alertData of
        Inl e \<Rightarrow> PreviewFailed e
      | Inr ctx \<Rightarrow>
          (case handlebars L templateContent ctx of
             Inl msg \<Rightarrow> PreviewFailed (RenderError msg)
           | Inr rendered \<Rightarrow> PreviewOk rendered ctx)) \<and>
   (normalize_body ts body = Inr alertData \<longrightarrow>
      (\<exists>ctx. prepareTemplateContext L now alertData = Inr ctx)) \<and>
   (generateDocument L now uuid alertData tid st = (Inr doc, st') \<longrightarrow>
      (\<exists>t ctx. templateFiles st tid = Some t \<and> prepareTemplateContext L now alertData = Inr ctx \<and>
         handlebars L (JStr (content t)) ctx = Inr (doc_content doc) \<and>
         fst (previewTemplate L now (JStr (content t)) alertData st) = PreviewOk (doc_content doc) ctx))"
proof (intro conjI impI)
  show "snd (previewTemplate L now templateContent alertData st) = st"
    by (simp add: previewTemplate_def split: sum.splits)
  show "fst (previewTemplate L now templateContent alertData st) =
     (case prepareTemplateContext L now alertData of
        Inl e \<Rightarrow> PreviewFailed e
      | Inr ctx \<Rightarrow>
          (case handlebars L templateContent ctx of
             Inl msg \<Rightarrow> PreviewFailed (RenderError msg)
           | Inr rendered \<Rightarrow> PreviewOk rendered ctx))"
    by (simp add: previewTemplate_def split: sum.splits)
next
  assume "normalize_body ts body = Inr alertData"
  from normalized_priority [OF this] prepare_ok
  show "\<exists>ctx. prepareTemplateContext L now alertData = Inr ctx" by blast
next
  assume "generateDocument L now uuid alertData tid st = (Inr doc, st')"
  from generateDocument_success [OF this] obtain t ctx where
    a: "templateFiles st tid = Some t" "prepareTemplateContext L now alertData = Inr ctx"
      "handlebars L (JStr (content t)) ctx = Inr (doc_content doc)" by blast
  then have "fst (previewTemplate L now (JStr (content t)) alertData st) = PreviewOk (doc_content doc) ctx"
    by (simp add: previewTemplate_def)
  with a show "\<exists>t ctx. templateFiles st tid = Some t \<and> prepareTemplateContext L now alertData = Inr ctx \<and>
         handlebars L (JStr (content t)) ctx = Inr (doc_content doc) \<and>
         fst (previewTemplate L now (JStr (content t)) alertData st) = PreviewOk (doc_content doc) ctx"
    by blast
qed

lemma sample_render_error:
  "handlebars sample_lib (JStr ''{{#if alert.title}}Alert'') ctx = Inl ''Parse error''"
  by (simp add: sample_lib_def startsWith_def)

text \<open>
  A template with an unclosed block is reported as a failure with the message of the
  engine, a well-formed one is rendered; the state is unchanged.
\<close>

theorem preview_is_pure_witness:
  "snd (previewTemplate sample_lib 1714557720000 (JStr ''{{#if alert.title}}Alert'')
          (text_alert ''2024-05-01T10:00:00.000Z'' ''[Triggered] CPU high'') sample_state) = sample_state \<and>
   fst (previewTemplate sample_lib 1714557720000 (JStr ''{{#if alert.title}}Alert'')
          (text_alert ''2024-05-01T10:00:00.000Z'' ''[Triggered] CPU high'') sample_state)
     = PreviewFailed (RenderError ''Parse error'') \<and>
   (\<exists>ctx. fst (previewTemplate sample_lib 1714557720000 (JStr ''Alert: {{alert.title}}'')
          (text_alert ''2024-05-01T10:00:00.000Z'' ''[Triggered] CPU high'') sample_state)
     = PreviewOk ''Alert: {{alert.title}}'' ctx)"
proof -
  let ?a = "text_alert ''2024-05-01T10:00:00.000Z'' ''[Triggered] CPU high''"
  from prepare_ok [OF sample_priority] obtain ctx where
    c: "prepareTemplateContext sample_lib 1714557720000 ?a = Inr ctx" by blast
  from preview_is_pure [of sample_lib 1714557720000 "JStr ''{{#if alert.title}}Alert''" ?a sample_state]
    preview_is_pure [of sample_lib 1714557720000 "JStr ''Alert: {{alert.title}}''" ?a sample_state]
    c
  show ?thesis by (simp add: sample_render sample_render_error)
qed

section \<open>Properties: template update\<close>

lemma trim_empty_iff: "trim s = [] \<longleftrightarrow> list_all is_space s"
proof -
  have "trim s = [] \<longleftrightarrow> (\<forall>c \<in> set (dropWhile is_space s). is_space c)"
    by (simp add: trim_def dropWhile_eq_Nil_conv)
  also have "\<dots> \<longleftrightarrow> dropWhile is_space s = []"
    by (metis dropWhile_eq_Nil_conv dropWhile_idem)
  also have "\<dots> \<longleftrightarrow> list_all is_space s"
    by (simp add: dropWhile_eq_Nil_conv list_all_iff)
  finally show ?thesis .
qed

lemma trim_or_cases:
  "trim_or v old = (if is_string v \<or> nullish v then Inr (kept v old) else Inl TypeError)"
  by (cases v) (auto simp: trim_or_def opt_trim_def kept_def field_text_def trim_empty_iff)

text \<open>
  C10. For every update call on an existing template the stored id, creation time, usage
  count and last-used time are unchanged, and nothing else in the state changes. When each
  of name, description, category and content is a string or is absent, the call succeeds:
  each field keeps its old value if the request gives nothing, the empty string or only
  white space, and becomes the trimmed string otherwise (so a non-empty description is never
  cleared), and the update time is set to the clock. A field of another type raises a
  TypeError in \<^verbatim>\<open>?.trim()\<close> and the template stays as it was.
\<close>

theorem update_template_partial:
  assumes ex: "templateFiles st tid = Some old"
  shows "\<exists>stored.
     snd (update_template now tid name_f description_f category_f content_f st)
       = st\<lparr> templateFiles := (templateFiles st)(tid \<mapsto> stored) \<rparr> \<and>
     template_id stored = template_id old \<and> createdAt stored = createdAt old \<and>
     usageCount stored = usageCount old \<and> lastUsed stored = lastUsed old \<and>
     (if (is_string name_f \<or> nullish name_f) \<and> (is_string description_f \<or> nullish description_f) \<and>
         (is_string category_f \<or> nullish category_f) \<and> (is_string content_f \<or> nullish content_f)
      then fst (update_template now tid name_f description_f category_f content_f st) = Inr stored \<and>
           name stored = kept name_f (name old) \<and>
           description stored = kept description_f (description old) \<and>
           category stored = kept category_f (category old) \<and>
           content stored = kept content_f (content old) \<and>
           updatedAt stored = now \<and>
           (description old = [] \<or> description stored \<noteq> [])
      else fst (update_template now tid name_f description_f category_f content_f st) = Inl TypeError \<and>
           stored = old)"
proof (cases "(is_string name_f \<or> nullish name_f) \<and> (is_string description_f \<or> nullish description_f) \<and>
         (is_string category_f \<or> nullish category_f) \<and> (is_string content_f \<or> nullish content_f)")
  case True
  have "description old = [] \<or> kept description_f (description old) \<noteq> []"
    by (auto simp: kept_def trim_empty_iff)
  with ex True show ?thesis
    by (simp add: update_template_def trim_or_cases Let_def)
next
  case False
  have same: "st\<lparr> templateFiles := (templateFiles st)(tid \<mapsto> old) \<rparr> = st"
    using ex by (simp add: fun_upd_idem)
  from ex False have "update_template now tid name_f description_f category_f content_f st
      = (Inl TypeError, st)"
    by (auto simp: update_template_def trim_or_cases Let_def)
  with False same show ?thesis by (intro exI [of _ old]) simp
qed

text \<open>
  An update with a blank name, an empty description, no category and a new content.
\<close>

theorem update_template_partial_witness:
  "\<exists>stored. update_template 1714557900000 ''t-1'' (JStr ''  '') (JStr []) JUndefined
               (JStr '' New body '') sample_state
          = (Inr stored, sample_state\<lparr> templateFiles := (templateFiles sample_state)(''t-1'' \<mapsto> stored) \<rparr>) \<and>
        name stored = ''Incident report'' \<and> description stored = ''Default report'' \<and>
        category stored = ''general'' \<and> content stored = ''New body'' \<and>
        template_id stored = ''t-1'' \<and> createdAt stored = 1714557000000 \<and>
        usageCount stored = Some 0 \<and> updatedAt stored = 1714557900000"
proof -
  let ?U = "update_template 1714557900000 ''t-1'' (JStr ''  '') (JStr []) JUndefined
               (JStr '' New body '') sample_state"
  have k: "kept (JStr ''  '') (name sample_template) = ''Incident report''"
    "kept (JStr []) (description sample_template) = ''Default report''"
    "kept JUndefined (category sample_template) = ''general''"
    "kept (JStr '' New body '') (content sample_template) = ''New body''"
    by (simp_all add: kept_def field_text_def is_space_def trim_def sample_template_def)
  from update_template_partial [OF sample_template_file(1), of 1714557900000 "JStr ''  ''" "JStr []"
      JUndefined "JStr '' New body ''"]
  obtain stored where
    "snd ?U = sample_state\<lparr> templateFiles := (templateFiles sample_state)(''t-1'' \<mapsto> stored) \<rparr>"
    "fst ?U = Inr stored"
    "name stored = ''Incident report''" "description stored = ''Default report''"
    "category stored = ''general''" "content stored = ''New body''"
    "template_id stored = template_id sample_template" "createdAt stored = createdAt sample_template"
    "usageCount stored = usageCount sample_template" "updatedAt stored = 1714557900000"
    by (auto simp: k)
  then have "?U = (Inr stored, sample_state\<lparr> templateFiles := (templateFiles sample_state)(''t-1'' \<mapsto> stored) \<rparr>)
      \<and> name stored = ''Incident report'' \<and> description stored = ''Default report'' \<and>
        category stored = ''general'' \<and> content stored = ''New body'' \<and>
        template_id stored = ''t-1'' \<and> createdAt stored = 1714557000000 \<and>
        usageCount stored = Some 0 \<and> updatedAt stored = 1714557900000"
    by (simp add: sample_template_def prod_eq_iff)
  then show ?thesis by blast
qed

section \<open>Properties: document search\<close>

lemma search_loop_acc:
  "search_loop q ds acc
     = acc @ map hit_of (filter (\<lambda>d. str_includes (searchableText d) q) ds)"
  by (induction ds arbitrary: acc) auto

text \<open>
  C8, as amended. The search route of the server returns, newest first, one summary for
  each stored document whose lowercased text \<^verbatim>\<open>title + ' ' + content + ' ' + alertType\<close>
  contains the lowercased query, and each summary carries the snippet made of the first 200
  characters of the content followed by three dots. The search of the serverless function
  returns the stored documents whose lowercased title, content or JSON text of the alert
  data contains the lowercased query, as whole documents.
\<close>

theorem search_documents_hits:
  "search_documents docs query
     = sort_key (\<lambda>h. - hit_createdAt h)
         (map hit_of (filter (\<lambda>d. str_includes
            (toLowerCase (doc_title d @ '' '' @ doc_content d @ '' '' @ js_to_string (doc_alertType d)))
            (toLowerCase query)) docs)) \<and>
   hit_id (hit_of d) = doc_id d \<and>
   snippet (hit_of d) = take 200 (doc_content d) @ ''...'' \<and>
   nl_search nl_docs query
     = filter (\<lambda>doc. str_includes (toLowerCase (nl_title doc)) (toLowerCase query) \<or>
                      str_includes (toLowerCase (nl_content doc)) (toLowerCase query) \<or>
                      (truthy (alert_data doc) \<and>
                       str_includes (toLowerCase (stringify_text None (alert_data doc))) (toLowerCase query)))
         nl_docs"
proof (intro conjI)
  show "nl_search nl_docs query
     = filter (\<lambda>doc. str_includes (toLowerCase (nl_title doc)) (toLowerCase query) \<or>
                      str_includes (toLowerCase (nl_content doc)) (toLowerCase query) \<or>
                      (truthy (alert_data doc) \<and>
                       str_includes (toLowerCase (stringify_text None (alert_data doc))) (toLowerCase query)))
         nl_docs"
    unfolding nl_search_def by (rule filter_cong) (simp_all add: nl_matches_def)
qed (simp_all add: search_documents_def search_loop_acc searchableText_def hit_of_def)

lemma sample_matches:
  "filter (\<lambda>d. str_includes
            (toLowerCase (doc_title d @ '' '' @ doc_content d @ '' '' @ js_to_string (doc_alertType d)))
            (toLowerCase ''DISK'')) [sample_document] = [sample_document]"
  by code_simp

text \<open>
  The search route finds the stored document by a word of its title, whatever the case.
\<close>

theorem search_documents_hits_witness:
  "map hit_id (search_documents [sample_document] ''DISK'') = [''d-1''] \<and>
   map snippet (search_documents [sample_document] ''DISK'') = [''usage 91%...'']"
proof -
  from search_documents_hits [of "[sample_document]" "''DISK''" sample_document "[]"]
  have "search_documents [sample_document] ''DISK''
      = sort_key (\<lambda>h. - hit_createdAt h)
         (map hit_of (filter (\<lambda>d. str_includes
            (toLowerCase (doc_title d @ '' '' @ doc_content d @ '' '' @ js_to_string (doc_alertType d)))
            (toLowerCase ''DISK'')) [sample_document]))"
    by (rule conjunct1)
  then have "search_documents [sample_document] ''DISK'' = [hit_of sample_document]"
    unfolding sample_matches by simp
  then show ?thesis by (simp add: hit_of_def sample_document_def)
qed

text \<open>
  C8 as stated fails on the search route of the server. The query \<^verbatim>\<open>datadog_json\<close> occurs
  in the JSON text of the source alert of the stored document, and the route returns
  nothing; the query \<^verbatim>\<open>10:00 usage\<close> occurs in none of title, content and source alert,
  and the route returns the document, because it matches across the end of the title.
\<close>

theorem search_counterexample:
  "str_includes (toLowerCase (stringify_text None (originalAlert sample_document)))
      (toLowerCase ''datadog_json'') \<and>
   search_documents [sample_document] ''datadog_json'' = [] \<and>
   \<not> str_includes (toLowerCase (doc_title sample_document)) (toLowerCase ''10:00 usage'') \<and>
   \<not> str_includes (toLowerCase (doc_content sample_document)) (toLowerCase ''10:00 usage'') \<and>
   \<not> str_includes (toLowerCase (stringify_text None (originalAlert sample_document)))
      (toLowerCase ''10:00 usage'') \<and>
   map hit_id (search_documents [sample_document] ''10:00 usage'') = [''d-1'']"
  by code_simp

end
